theory Spec2Isabelle
  imports Main "HOL-Library.AList" "HOL-Library.Sublist"
begin

section \<open>Data model (types.ts)\<close>

text \<open>
  A job is a path with a schedule. An execution result carries the job's two fields
  and the outcome of one dispatch, so it is modelled as an extension of the job record.
  Optional fields (\<^verbatim>\<open>statusCode?\<close>, \<^verbatim>\<open>error?\<close>, \<^verbatim>\<open>duration?\<close>, \<^verbatim>\<open>lastExecution?\<close>) are options;
  a \<^verbatim>\<open>Date\<close> is its millisecond count.
\<close>

record CronJob =
  path :: string
  schedule :: string

record VercelCronConfig =
  crons :: "CronJob list"

record CronExecutionResult = CronJob +
  success :: bool
  statusCode :: "int option"
  error :: "string option"
  timestamp :: int
  duration :: "int option"

record CronRunnerStats =
  totalJobs :: nat
  successfulExecutions :: nat
  failedExecutions :: nat
  lastExecution :: "int option"

section \<open>Exceptions\<close>

text \<open>
  A thrown value is an instance of \<^verbatim>\<open>Error\<close> (with its class and message) or something
  else. The errors the runner raises itself are all \<^verbatim>\<open>new Error(message)\<close>; each gets a
  constructor, and \<open>message\<close> renders the text the source builds. \<open>Uncaught\<close> is an
  exception of the platform that leaves the runner unchanged.
\<close>

datatype error_class = PlainError | SyntaxError | TypeError | SystemError

datatype thrown = Exn error_class string | NonError string

datatype runner_error =
    BaseUrlRequired
  | BaseUrlInvalid
  | ConfigNotFound string
  | ConfigParseError string string
  | ConfigShapeError
  | NoMatchingJobs
  | InvalidSchedule string string
  | JobNotFound string
  | Uncaught thrown

fun message :: "runner_error \<Rightarrow> string" where
  "message BaseUrlRequired = ''baseUrl is required''"
| "message BaseUrlInvalid = ''baseUrl must be a valid URL''"
| "message (ConfigNotFound p) = ''Config file not found: '' @ p"
| "message (ConfigParseError p m) = ''Invalid JSON in '' @ p @ '': '' @ m"
| \<open>message ConfigShapeError = ''Invalid vercel.json: missing "crons" array''\<close>
| "message NoMatchingJobs = ''No cron jobs found matching the filter''"
| "message (InvalidSchedule p s) = ''Invalid cron schedule for '' @ p @ '': '' @ s"
| "message (JobNotFound p) = ''Cron job not found: '' @ p"
| "message (Uncaught (Exn c m)) = m"
| "message (Uncaught (NonError s)) = s"

section \<open>The platform\<close>

text \<open>
  What \<^verbatim>\<open>JSON.parse\<close> returns, as far as \<open>loadConfig\<close> looks at it. The source casts
  the parsed value to \<^verbatim>\<open>VercelCronConfig\<close> without a check of the elements, so an array
  is viewed at the element type that cast declares. The keys of a parsed object are
  distinct, as the parser delivers them.
\<close>

datatype json =
    JNull
  | JBool bool
  | JNumber int
  | JString string
  | JArray "CronJob list"
  | JObject "(string \<times> json) list"

record Response =
  ok :: bool
  status :: int

datatype fetch_outcome = Resolved Response | Rejected thrown

record RequestInit =
  http_method :: string
  headers :: "string \<rightharpoonup> string"

type_synonym 'w fetchFn = "string \<Rightarrow> RequestInit \<Rightarrow> 'w \<Rightarrow> fetch_outcome \<times> 'w"

text \<open>
  Everything the runner takes from Node and from node-cron is a field of the platform,
  over a state \<open>'w\<close> of the outside world (file system, network, clock, the timers of
  node-cron). A timer handle is a number the world gives out.
\<close>

record 'w platform =
  env_CRON_SECRET :: "string option"
  URL_valid :: "string \<Rightarrow> bool"
  path_resolve :: "string \<Rightarrow> string"
  existsSync :: "'w \<Rightarrow> string \<Rightarrow> bool"
  readFileSync :: "'w \<Rightarrow> string \<Rightarrow> thrown + string"
  JSON_parse :: "string \<Rightarrow> thrown + json"
  RegExp_new :: "string \<Rightarrow> thrown + (string \<Rightarrow> bool)"
  cron_validate :: "string \<Rightarrow> bool"
  cron_schedule :: "string \<Rightarrow> CronJob \<Rightarrow> 'w \<Rightarrow> nat \<times> 'w"
  task_stop :: "nat \<Rightarrow> 'w \<Rightarrow> 'w"
  global_fetch :: "'w fetchFn"
  Date_now :: "'w \<Rightarrow> int \<times> 'w"

section \<open>The runner (class CronRunner)\<close>

text \<open>
  The class is the second part of \<^verbatim>\<open>src/src/cli.ts\<close> (lines 230 to 535, imported by the
  command line as \<^verbatim>\<open>./runner\<close>); line numbers below are those of that file.
  \<open>CronRunnerOptions\<close> is the constructor's argument, \<open>Options\<close> the resolved
  \<^verbatim>\<open>this.options\<close> (lines 252 to 275). The field \<^verbatim>\<open>filter\<close> is \<open>filter_opt\<close> here.
\<close>

record 'w CronRunnerOptions =
  opt_baseUrl :: string
  opt_cronSecret :: "string option"
  opt_configPath :: "string option"
  opt_verbose :: "nat option"
  opt_filter :: "string option"
  opt_fetch :: "'w fetchFn option"

record 'w Options =
  baseUrl :: string
  cronSecret :: string
  configPath :: string
  verbose :: nat
  filter_opt :: "string option"
  fetch :: "'w fetchFn option"

record 'w CronRunner =
  options :: "'w Options"
  tasks :: "(string \<times> nat) list"
  stats :: CronRunnerStats
  config :: "VercelCronConfig option"

text \<open>The operator \<^verbatim>\<open>a || b\<close> on optional strings: an absent or empty \<open>a\<close> gives \<open>b\<close>.\<close>

fun or_else :: "string option \<Rightarrow> string \<Rightarrow> string" where
  "or_else None d = d"
| "or_else (Some s) d = (if s = [] then d else s)"

definition validateOptions :: "'w platform \<Rightarrow> 'w Options \<Rightarrow> runner_error option" where
  "validateOptions P opts =
     (if baseUrl opts = [] then Some BaseUrlRequired
      else if \<not> URL_valid P (baseUrl opts) then Some BaseUrlInvalid
      else None)"

definition CronRunner_new ::
  "'w platform \<Rightarrow> 'w CronRunnerOptions \<Rightarrow> runner_error + 'w CronRunner" where
  "CronRunner_new P o_arg =
     (let opts = \<lparr>baseUrl = opt_baseUrl o_arg,
                  cronSecret = or_else (opt_cronSecret o_arg) (or_else (env_CRON_SECRET P) []),
                  configPath = or_else (opt_configPath o_arg) ''./vercel.json'',
                  verbose = (case opt_verbose o_arg of None \<Rightarrow> 0 | Some v \<Rightarrow> v),
                  filter_opt = opt_filter o_arg,
                  fetch = opt_fetch o_arg\<rparr>
      in case validateOptions P opts of
           Some e \<Rightarrow> Inl e
         | None \<Rightarrow>
             Inr \<lparr>options = opts,
                  tasks = [],
                  stats = \<lparr>totalJobs = 0, successfulExecutions = 0, failedExecutions = 0,
                           lastExecution = None\<rparr>,
                  config = None\<rparr>)"

subsection \<open>loadConfig (lines 277 to 299)\<close>

text \<open>
  \<open>get_crons\<close> is the property access \<^verbatim>\<open>config.crons\<close>: it throws a TypeError on
  \<^verbatim>\<open>null\<close>, gives \<^verbatim>\<open>undefined\<close> (\<open>None\<close>) on a value without that property.
  \<open>falsy\<close> is \<^verbatim>\<open>!v\<close>, \<open>isArray\<close> is \<^verbatim>\<open>Array.isArray\<close>.
\<close>

fun get_crons :: "json \<Rightarrow> thrown + json option" where
  "get_crons JNull = Inl (Exn TypeError ''Cannot read properties of null (reading 'crons')'')"
| "get_crons (JObject kvs) = Inr (map_of kvs ''crons'')"
| "get_crons other = Inr None"

fun falsy :: "json option \<Rightarrow> bool" where
  "falsy None = True"
| "falsy (Some JNull) = True"
| "falsy (Some (JBool b)) = (\<not> b)"
| "falsy (Some (JNumber n)) = (n = 0)"
| "falsy (Some (JString s)) = (s = [])"
| "falsy (Some (JArray js)) = False"
| "falsy (Some (JObject kvs)) = False"

fun isArray :: "json option \<Rightarrow> bool" where
  "isArray (Some (JArray js)) = True"
| "isArray other = False"

fun elements :: "json option \<Rightarrow> CronJob list" where
  "elements (Some (JArray js)) = js"
| "elements other = []"

text \<open>The body of the \<^verbatim>\<open>try\<close> block of \<open>loadConfig\<close>, then its \<^verbatim>\<open>catch\<close>.\<close>

definition loadConfig_try ::
  "'w platform \<Rightarrow> string \<Rightarrow> 'w \<Rightarrow> runner_error + VercelCronConfig" where
  "loadConfig_try P configPath' w =
     (case readFileSync P w configPath' of
        Inl e \<Rightarrow> Inl (Uncaught e)
      | Inr content \<Rightarrow>
          (case JSON_parse P content of
             Inl e \<Rightarrow> Inl (Uncaught e)
           | Inr cfg \<Rightarrow>
               (case get_crons cfg of
                  Inl e \<Rightarrow> Inl (Uncaught e)
                | Inr c \<Rightarrow>
                    if falsy c \<or> \<not> isArray c then Inl ConfigShapeError
                    else Inr \<lparr>crons = elements c\<rparr>)))"

fun loadConfig_catch ::
  "string \<Rightarrow> runner_error + VercelCronConfig \<Rightarrow> runner_error + VercelCronConfig" where
  "loadConfig_catch configPath' (Inl (Uncaught (Exn SyntaxError m))) =
     Inl (ConfigParseError configPath' m)"
| "loadConfig_catch configPath' r = r"

definition loadConfig ::
  "'w platform \<Rightarrow> 'w Options \<Rightarrow> 'w \<Rightarrow> runner_error + VercelCronConfig" where
  "loadConfig P opts w =
     (let configPath' = path_resolve P (configPath opts)
      in if \<not> existsSync P w configPath' then Inl (ConfigNotFound configPath')
         else loadConfig_catch configPath' (loadConfig_try P configPath' w))"

subsection \<open>filterJobs (lines 301 to 310)\<close>

text \<open>\<open>replace_star\<close> is \<^verbatim>\<open>replace(/\*/g, ".*")\<close>.\<close>

fun replace_star :: "string \<Rightarrow> string" where
  "replace_star [] = []"
| "replace_star (c # cs) =
     (if c = CHR ''*'' then ''.*'' @ replace_star cs else c # replace_star cs)"

definition filterJobs ::
  "'w platform \<Rightarrow> 'w Options \<Rightarrow> CronJob list \<Rightarrow> runner_error + CronJob list" where
  "filterJobs P opts jobs =
     (case filter_opt opts of
        None \<Rightarrow> Inr jobs
      | Some f \<Rightarrow>
          if f = [] then Inr jobs
          else
            (let pattern = replace_star f
             in case RegExp_new P (''^'' @ pattern @ ''$'') of
                  Inl e \<Rightarrow> Inl (Uncaught e)
                | Inr regex \<Rightarrow> Inr (filter (\<lambda>job. regex (path job)) jobs)))"

subsection \<open>executeCron (lines 312 to 412)\<close>

text \<open>
  \<open>log\<close> (lines 418 to 431) writes to the console and changes no field; the block that
  reads the response body at verbosity 2 (lines 337 to 358) only builds a string for
  \<open>log\<close> and catches its own failures. Both are left out, and with them the reading of
  the clock that \<open>log\<close> makes for the prefix of every line it prints (every error line,
  and every line at a verbosity above 0): under a clock that counts its readings, a
  duration, and a timestamp taken after the first printed line, can differ from the
  code's. The clock is read three times for the result: \<^verbatim>\<open>startTime\<close>, \<^verbatim>\<open>timestamp\<close>, and
  after the call, in either branch. \<open>requestInit\<close> is the second argument of the call
  (lines 320 to 332), \<open>fetch_call\<close> the call itself.
\<close>

definition requestInit :: "'w Options \<Rightarrow> RequestInit" where
  "requestInit opts =
     (let headers0 = [''Content-Type'' \<mapsto> ''application/json''];
          headers1 = (if cronSecret opts \<noteq> []
                      then headers0(''Authorization'' \<mapsto> ''Bearer '' @ cronSecret opts)
                      else headers0)
      in \<lparr>http_method = ''GET'', headers = headers1\<rparr>)"

definition fetch_call :: "'w platform \<Rightarrow> 'w Options \<Rightarrow> CronJob \<Rightarrow> 'w \<Rightarrow> fetch_outcome \<times> 'w" where
  "fetch_call P opts job w =
     (let url = baseUrl opts @ path job;
          fetchFn = (case fetch opts of Some f \<Rightarrow> f | None \<Rightarrow> global_fetch P)
      in fetchFn url (requestInit opts) w)"

fun errorMessage :: "thrown \<Rightarrow> string" where
  "errorMessage (Exn c m) = m"
| "errorMessage (NonError s) = ''Unknown error''"

definition executeCron ::
  "'w platform \<Rightarrow> 'w CronRunner \<Rightarrow> CronJob \<Rightarrow> 'w \<Rightarrow> CronExecutionResult \<times> 'w CronRunner \<times> 'w" where
  "executeCron P r job w =
     (let (startTime, w1) = Date_now P w;
          (timestamp', w2) = Date_now P w1;
          (outcome, w3) = fetch_call P (options r) job w2;
          (endTime, w4) = Date_now P w3;
          duration' = endTime - startTime
      in case outcome of
           Resolved response \<Rightarrow>
             (let st = stats r;
                  st1 = (if ok response
                         then st\<lparr>successfulExecutions := successfulExecutions st + 1\<rparr>
                         else st\<lparr>failedExecutions := failedExecutions st + 1\<rparr>);
                  st2 = st1\<lparr>lastExecution := Some timestamp'\<rparr>
              in (\<lparr>path = path job, schedule = schedule job, success = ok response,
                   statusCode = Some (status response), error = None,
                   timestamp = timestamp', duration = Some duration'\<rparr>,
                  r\<lparr>stats := st2\<rparr>, w4))
         | Rejected e \<Rightarrow>
             (let st = stats r;
                  st1 = st\<lparr>failedExecutions := failedExecutions st + 1\<rparr>
              in (\<lparr>path = path job, schedule = schedule job, success = False,
                   statusCode = None, error = Some (errorMessage e),
                   timestamp = timestamp', duration = Some duration'\<rparr>,
                  r\<lparr>stats := st1\<rparr>, w4)))"

text \<open>
  The outcome of the outbound call that \<open>executeCron\<close> makes from the world \<open>w\<close>: the
  call comes after the two readings of the clock.
\<close>

definition dispatch_outcome :: "'w platform \<Rightarrow> 'w CronRunner \<Rightarrow> CronJob \<Rightarrow> 'w \<Rightarrow> fetch_outcome" where
  "dispatch_outcome P r job w =
     fst (fetch_call P (options r) job (snd (Date_now P (snd (Date_now P w)))))"

subsection \<open>start and stop (lines 436 to 479)\<close>

text \<open>
  \<open>tasks\<close> is a JavaScript \<^verbatim>\<open>Map\<close>: \<^verbatim>\<open>set\<close> replaces the value of a key that is present
  and appends a new key, and iteration follows insertion order, which is what
  \<open>AList.update\<close> does on an association list. \<open>start_loop\<close> is the \<^verbatim>\<open>for\<close> loop of
  \<open>start\<close>; a \<^verbatim>\<open>throw\<close> leaves the runner and the world as they are at that point.
\<close>

fun start_loop ::
  "'w platform \<Rightarrow> CronJob list \<Rightarrow> 'w CronRunner \<Rightarrow> 'w \<Rightarrow> (runner_error + unit) \<times> 'w CronRunner \<times> 'w" where
  "start_loop P [] r w = (Inr (), r, w)"
| "start_loop P (job # jobs) r w =
     (if \<not> cron_validate P (schedule job)
      then (Inl (InvalidSchedule (path job) (schedule job)), r, w)
      else (let (task, w') = cron_schedule P (schedule job) job w
            in start_loop P jobs (r\<lparr>tasks := AList.update (path job) task (tasks r)\<rparr>) w'))"

definition start ::
  "'w platform \<Rightarrow> 'w CronRunner \<Rightarrow> 'w \<Rightarrow> (runner_error + unit) \<times> 'w CronRunner \<times> 'w" where
  "start P r w =
     (case loadConfig P (options r) w of
        Inl e \<Rightarrow> (Inl e, r, w)
      | Inr cfg \<Rightarrow>
          (let r1 = r\<lparr>config := Some cfg\<rparr>
           in case filterJobs P (options r1) (crons cfg) of
                Inl e \<Rightarrow> (Inl e, r1, w)
              | Inr jobs \<Rightarrow>
                  if length jobs = 0 then (Inl NoMatchingJobs, r1, w)
                  else start_loop P jobs
                         (r1\<lparr>stats := (stats r1)\<lparr>totalJobs := length jobs\<rparr>\<rparr>) w))"

definition stop :: "'w platform \<Rightarrow> 'w CronRunner \<Rightarrow> 'w \<Rightarrow> 'w CronRunner \<times> 'w" where
  "stop P r w = (r\<lparr>tasks := []\<rparr>, foldl (\<lambda>w' (p, task). task_stop P task w') w (tasks r))"

subsection \<open>executeAll, executeOne, getStats, listJobs (lines 484 to 534)\<close>

fun executeAll_loop ::
  "'w platform \<Rightarrow> CronJob list \<Rightarrow> CronExecutionResult list \<Rightarrow> 'w CronRunner \<Rightarrow> 'w
     \<Rightarrow> CronExecutionResult list \<times> 'w CronRunner \<times> 'w" where
  "executeAll_loop P [] results r w = (results, r, w)"
| "executeAll_loop P (job # jobs) results r w =
     (let (result, r', w') = executeCron P r job w
      in executeAll_loop P jobs (results @ [result]) r' w')"

definition executeAll ::
  "'w platform \<Rightarrow> 'w CronRunner \<Rightarrow> 'w
     \<Rightarrow> (runner_error + CronExecutionResult list) \<times> 'w CronRunner \<times> 'w" where
  "executeAll P r w =
     (case loadConfig P (options r) w of
        Inl e \<Rightarrow> (Inl e, r, w)
      | Inr cfg \<Rightarrow>
          (let r1 = r\<lparr>config := Some cfg\<rparr>
           in case filterJobs P (options r1) (crons cfg) of
                Inl e \<Rightarrow> (Inl e, r1, w)
              | Inr jobs \<Rightarrow>
                  if length jobs = 0 then (Inl NoMatchingJobs, r1, w)
                  else (let (results, r2, w') = executeAll_loop P jobs [] r1 w
                        in (Inr results, r2, w'))))"

definition executeOne ::
  "'w platform \<Rightarrow> 'w CronRunner \<Rightarrow> string \<Rightarrow> 'w
     \<Rightarrow> (runner_error + CronExecutionResult) \<times> 'w CronRunner \<times> 'w" where
  "executeOne P r p w =
     (case loadConfig P (options r) w of
        Inl e \<Rightarrow> (Inl e, r, w)
      | Inr cfg \<Rightarrow>
          (let r1 = r\<lparr>config := Some cfg\<rparr>
           in case find (\<lambda>j. path j = p) (crons cfg) of
                None \<Rightarrow> (Inl (JobNotFound p), r1, w)
              | Some job \<Rightarrow>
                  (let (result, r2, w') = executeCron P r1 job w
                   in (Inr result, r2, w'))))"

definition getStats :: "'w CronRunner \<Rightarrow> CronRunnerStats" where
  "getStats r = stats r"

definition listJobs ::
  "'w platform \<Rightarrow> 'w CronRunner \<Rightarrow> 'w \<Rightarrow> (runner_error + CronJob list) \<times> 'w CronRunner" where
  "listJobs P r w =
     (case config r of
        Some cfg \<Rightarrow> (filterJobs P (options r) (crons cfg), r)
      | None \<Rightarrow>
          (case loadConfig P (options r) w of
             Inl e \<Rightarrow> (Inl e, r)
           | Inr cfg \<Rightarrow> (filterJobs P (options r) (crons cfg), r\<lparr>config := Some cfg\<rparr>)))"

section \<open>A scripted platform\<close>

text \<open>
  The repository's tests run the runner against mocks of \<^verbatim>\<open>fs\<close>, \<^verbatim>\<open>fetch\<close> and node-cron.
  \<open>test_platform\<close> is such a platform, used to run the model on concrete inputs: files
  are a table from absolute paths to texts, the transport answers from a script and keeps
  the requests it was given, the clock advances at every reading, and the timers that
  were created and stopped are recorded.
\<close>

record test_world =
  files :: "(string \<times> string) list"
  responses :: "fetch_outcome list"
  requests :: "(string \<times> RequestInit) list"
  clock :: int
  next_handle :: nat
  running :: "nat list"
  stop_calls :: "nat list"

text \<open>
  A matcher for the anchored patterns \<^verbatim>\<open>^...$\<close> whose body is made of ordinary characters,
  \<^verbatim>\<open>.\<close> and the quantifiers \<^verbatim>\<open>*\<close>, \<^verbatim>\<open>+\<close>, \<^verbatim>\<open>?\<close>. A quantifier with nothing before it to
  repeat is the syntax error of the platform's \<^verbatim>\<open>RegExp\<close>; a pattern that uses anything
  else (groups, classes, escapes, alternation, braces, inner anchors, lazy quantifiers)
  is outside the fragment and is answered with an error of its own.
\<close>

datatype atom = Lit char | AnyChar

datatype quant = Once | Star | Plus | Opt

datatype parsed = Parsed "(atom \<times> quant) list" | Invalid | Unsupported

fun atom_matches :: "atom \<Rightarrow> char \<Rightarrow> bool" where
  "atom_matches (Lit d) c = (c = d)"
| "atom_matches AnyChar c = (c \<noteq> CHR 0x0A \<and> c \<noteq> CHR 0x0D)"

fun match_items :: "(atom \<times> quant) list \<Rightarrow> string \<Rightarrow> bool" where
  "match_items [] s = (s = [])"
| "match_items ((a, Once) # is) [] = False"
| "match_items ((a, Once) # is) (c # cs) = (atom_matches a c \<and> match_items is cs)"
| "match_items ((a, Opt) # is) [] = match_items is []"
| "match_items ((a, Opt) # is) (c # cs) =
     (match_items is (c # cs) \<or> (atom_matches a c \<and> match_items is cs))"
| "match_items ((a, Star) # is) [] = match_items is []"
| "match_items ((a, Star) # is) (c # cs) =
     (match_items is (c # cs) \<or> (atom_matches a c \<and> match_items ((a, Star) # is) cs))"
| "match_items ((a, Plus) # is) [] = False"
| "match_items ((a, Plus) # is) (c # cs) =
     (atom_matches a c \<and> match_items ((a, Star) # is) cs)"

text \<open>
  \<open>parse_char\<close> reads one character of the body after the items \<open>acc\<close> (last item
  first); \<open>parse_body\<close> reads the body left to right.
\<close>

definition parse_char :: "char \<Rightarrow> (atom \<times> quant) list \<Rightarrow> parsed" where
  "parse_char c acc =
     (if c = CHR 0x5C \<or> c \<in> set ''()[]{}|^$'' then Unsupported
      else if c = CHR ''*'' \<or> c = CHR ''+'' then
        (case acc of
           [] \<Rightarrow> Invalid
         | (a, q) # rest \<Rightarrow>
             if q = Once then Parsed ((a, if c = CHR ''*'' then Star else Plus) # rest)
             else Invalid)
      else if c = CHR ''?'' then
        (case acc of
           [] \<Rightarrow> Invalid
         | (a, q) # rest \<Rightarrow> if q = Once then Parsed ((a, Opt) # rest) else Unsupported)
      else if c = CHR ''.'' then Parsed ((AnyChar, Once) # acc)
      else Parsed ((Lit c, Once) # acc))"

fun parse_body :: "string \<Rightarrow> (atom \<times> quant) list \<Rightarrow> parsed" where
  "parse_body [] acc = Parsed (rev acc)"
| "parse_body (c # cs) acc =
     (case parse_char c acc of
        Parsed acc' \<Rightarrow> parse_body cs acc'
      | Invalid \<Rightarrow> Invalid
      | Unsupported \<Rightarrow> Unsupported)"

definition test_RegExp :: "string \<Rightarrow> thrown + (string \<Rightarrow> bool)" where
  "test_RegExp src =
     (if length src < 2 \<or> hd src \<noteq> CHR ''^'' \<or> last src \<noteq> CHR ''$''
      then Inl (Exn PlainError ''pattern outside the modelled fragment'')
      else case parse_body (butlast (tl src)) [] of
             Parsed items \<Rightarrow> Inr (match_items items)
           | Invalid \<Rightarrow>
               Inl (Exn SyntaxError ''Invalid regular expression: Nothing to repeat'')
           | Unsupported \<Rightarrow> Inl (Exn PlainError ''pattern outside the modelled fragment''))"

text \<open>
  The wildcard reading of a filter pattern, in the words of the specification: \<^verbatim>\<open>*\<close>
  stands for any substring, the empty one included, and every other character for
  itself. \<open>plain_pattern\<close> holds of the patterns without a character that means something
  to the matcher; \<open>items_of\<close> is what the matcher makes of such a pattern.
\<close>

fun wildcard_match :: "string \<Rightarrow> string \<Rightarrow> bool" where
  "wildcard_match [] s = (s = [])"
| "wildcard_match (c # cs) [] = (c = CHR ''*'' \<and> wildcard_match cs [])"
| "wildcard_match (c # cs) (d # ds) =
     (if c = CHR ''*'' then wildcard_match cs (d # ds) \<or> wildcard_match (c # cs) ds
      else c = d \<and> wildcard_match cs ds)"

definition plain_pattern :: "string \<Rightarrow> bool" where
  "plain_pattern f = list_all (\<lambda>c. c \<noteq> CHR 0x5C \<and> c \<notin> set ''()[]{}|^$+?.'') f"

definition items_of :: "string \<Rightarrow> (atom \<times> quant) list" where
  "items_of f = map (\<lambda>c. if c = CHR ''*'' then (AnyChar, Star) else (Lit c, Once)) f"

text \<open>The texts the scripted \<^verbatim>\<open>JSON.parse\<close> knows; any other text is a syntax error.\<close>

definition mockConfig_text :: string where
  \<open>mockConfig_text = ''{"crons":[{"path":"/api/crons/test1","schedule":"* * * * *"},{"path":"/api/crons/test2","schedule":"0 8 * * *"},{"path":"/api/crons/notifications/test3","schedule":"*/5 * * * *"}]}''\<close>

definition mockConfig :: "CronJob list" where
  "mockConfig =
     [\<lparr>path = ''/api/crons/test1'', schedule = ''* * * * *''\<rparr>,
      \<lparr>path = ''/api/crons/test2'', schedule = ''0 8 * * *''\<rparr>,
      \<lparr>path = ''/api/crons/notifications/test3'', schedule = ''*/5 * * * *''\<rparr>]"

definition badSchedule_text :: string where
  \<open>badSchedule_text = ''{"crons":[{"path":"/api/crons/test1","schedule":"* * * * *"},{"path":"/api/crons/test2","schedule":"invalid"}]}''\<close>

definition badSchedule :: "CronJob list" where
  "badSchedule =
     [\<lparr>path = ''/api/crons/test1'', schedule = ''* * * * *''\<rparr>,
      \<lparr>path = ''/api/crons/test2'', schedule = ''invalid''\<rparr>]"

definition otherData_text :: string where
  \<open>otherData_text = ''{"other":"data"}''\<close>

definition test_JSON_parse :: "string \<Rightarrow> thrown + json" where
  \<open>test_JSON_parse t =
     (if t = ''null'' then Inr JNull
      else if t = otherData_text then Inr (JObject [(''other'', JString ''data'')])
      else if t = mockConfig_text then Inr (JObject [(''crons'', JArray mockConfig)])
      else if t = badSchedule_text then Inr (JObject [(''crons'', JArray badSchedule)])
      else Inl (Exn SyntaxError ''Unexpected token''))\<close>

definition test_fetch :: "test_world fetchFn" where
  "test_fetch url init w =
     (case responses w of
        [] \<Rightarrow> (Rejected (Exn TypeError ''fetch failed''),
               w\<lparr>requests := requests w @ [(url, init)]\<rparr>)
      | x # xs \<Rightarrow> (x, w\<lparr>responses := xs, requests := requests w @ [(url, init)]\<rparr>))"

definition test_platform :: "test_world platform" where
  "test_platform =
     \<lparr>env_CRON_SECRET = None,
      URL_valid = (\<lambda>s. take 7 s = ''http://'' \<or> take 8 s = ''https://''),
      path_resolve = (\<lambda>p. if take 1 p = ''/'' then p
                           else if take 2 p = ''./'' then ''/cwd/'' @ drop 2 p
                           else ''/cwd/'' @ p),
      existsSync = (\<lambda>w p. map_of (files w) p \<noteq> None),
      readFileSync = (\<lambda>w p. case map_of (files w) p of
                               Some text \<Rightarrow> Inr text
                             | None \<Rightarrow> Inl (Exn SystemError ''ENOENT: no such file or directory'')),
      JSON_parse = test_JSON_parse,
      RegExp_new = test_RegExp,
      cron_validate = (\<lambda>s. length (filter (\<lambda>c. c = CHR '' '') s) = 4),
      cron_schedule = (\<lambda>s job w. (next_handle w,
                         w\<lparr>next_handle := next_handle w + 1,
                           running := running w @ [next_handle w]\<rparr>)),
      task_stop = (\<lambda>h w. w\<lparr>running := removeAll h (running w),
                            stop_calls := stop_calls w @ [h]\<rparr>),
      global_fetch = test_fetch,
      Date_now = (\<lambda>w. (clock w, w\<lparr>clock := clock w + 1\<rparr>))\<rparr>"

definition test_world0 :: "string \<Rightarrow> fetch_outcome list \<Rightarrow> test_world" where
  "test_world0 text script =
     \<lparr>files = [(''/cwd/vercel.json'', text)], responses = script, requests = [],
      clock = 1000, next_handle = 0, running = [], stop_calls = []\<rparr>"

definition test_options :: "test_world CronRunnerOptions" where
  "test_options =
     \<lparr>opt_baseUrl = ''http://localhost:3000'', opt_cronSecret = None, opt_configPath = None,
      opt_verbose = None, opt_filter = None, opt_fetch = None\<rparr>"

definition test_runner :: "test_world CronRunnerOptions \<Rightarrow> test_world CronRunner" where
  "test_runner o_arg =
     (case CronRunner_new test_platform o_arg of
        Inr r \<Rightarrow> r
      | Inl e \<Rightarrow> \<lparr>options = \<lparr>baseUrl = [], cronSecret = [], configPath = [], verbose = 0,
                              filter_opt = None, fetch = None\<rparr>,
                  tasks = [],
                  stats = \<lparr>totalJobs = 0, successfulExecutions = 0, failedExecutions = 0,
                           lastExecution = None\<rparr>,
                  config = None\<rparr>)"

text \<open>Scenarios: a fresh runner on the scripted platform, and what \<open>start\<close> makes of it.\<close>

definition runner0 :: "test_world CronRunner" where
  "runner0 = test_runner test_options"

definition started_ok :: "(runner_error + unit) \<times> test_world CronRunner \<times> test_world" where
  "started_ok = start test_platform runner0 (test_world0 mockConfig_text [])"

definition started_bad :: "(runner_error + unit) \<times> test_world CronRunner \<times> test_world" where
  "started_bad = start test_platform runner0 (test_world0 badSchedule_text [])"

text \<open>
  One-shot runs: the three jobs against a transport that answers 200, then 500, then
  fails; a runner with the secret \<^verbatim>\<open>abc\<close>; a runner with the filter of the tests; a
  single dispatch whose call fails, and one whose call is answered 500.
\<close>

definition script3 :: "fetch_outcome list" where
  "script3 = [Resolved \<lparr>ok = True, status = 200\<rparr>, Resolved \<lparr>ok = False, status = 500\<rparr>,
              Rejected (Exn PlainError ''Network error'')]"

definition executed_all ::
  "(runner_error + CronExecutionResult list) \<times> test_world CronRunner \<times> test_world" where
  "executed_all = executeAll test_platform runner0 (test_world0 mockConfig_text script3)"

definition runner_secret :: "test_world CronRunner" where
  "runner_secret = test_runner (test_options\<lparr>opt_cronSecret := Some ''abc''\<rparr>)"

definition executed_secret ::
  "(runner_error + CronExecutionResult list) \<times> test_world CronRunner \<times> test_world" where
  "executed_secret = executeAll test_platform runner_secret (test_world0 mockConfig_text script3)"

definition runner_filtered :: "test_world CronRunner" where
  "runner_filtered = test_runner (test_options\<lparr>opt_filter := Some ''/api/crons/notifications/*''\<rparr>)"

definition job1 :: CronJob where
  "job1 = \<lparr>path = ''/api/crons/test1'', schedule = ''* * * * *''\<rparr>"

definition dispatched_rejected :: "CronExecutionResult \<times> test_world CronRunner \<times> test_world" where
  "dispatched_rejected =
     executeCron test_platform runner0 job1
       (test_world0 mockConfig_text [Rejected (Exn PlainError ''Network error'')])"

definition dispatched_failed :: "CronExecutionResult \<times> test_world CronRunner \<times> test_world" where
  "dispatched_failed =
     executeCron test_platform runner0 job1
       (test_world0 mockConfig_text [Resolved \<lparr>ok = False, status = 500\<rparr>])"

text \<open>
  A single job run through a runner whose filter does not match it, a path that no job
  has, and a second round after the file has changed to the configuration with two jobs.
\<close>

definition executed_one ::
  "(runner_error + CronExecutionResult) \<times> test_world CronRunner \<times> test_world" where
  "executed_one =
     executeOne test_platform runner_filtered ''/api/crons/test1''
       (test_world0 mockConfig_text [Resolved \<lparr>ok = True, status = 200\<rparr>])"

definition executed_missing ::
  "(runner_error + CronExecutionResult) \<times> test_world CronRunner \<times> test_world" where
  "executed_missing =
     executeOne test_platform runner_filtered ''/does/not/exist''
       (test_world0 mockConfig_text [Resolved \<lparr>ok = True, status = 200\<rparr>])"

definition executed_again ::
  "(runner_error + CronExecutionResult list) \<times> test_world CronRunner \<times> test_world" where
  "executed_again =
     executeAll test_platform (fst (snd executed_all)) (test_world0 badSchedule_text [])"

definition listed_again :: "(runner_error + CronJob list) \<times> test_world CronRunner" where
  "listed_again =
     listJobs test_platform (fst (snd executed_all)) (test_world0 badSchedule_text [])"

section \<open>The loop of start\<close>

lemma start_loop_keeps:
  "start_loop P jobs r w = (res, r', w') \<Longrightarrow>
     stats r' = stats r \<and> options r' = options r \<and> config r' = config r"
proof (induction jobs arbitrary: r w)
  case Nil
  then show ?case by simp
next
  case (Cons job jobs)
  show ?case
  proof (cases "cron_validate P (schedule job)")
    case False
    with Cons.prems show ?thesis by simp
  next
    case True
    obtain task w1 where s: "cron_schedule P (schedule job) job w = (task, w1)"
      by (cases "cron_schedule P (schedule job) job w")
    from Cons.prems True s
    have "start_loop P jobs (r\<lparr>tasks := AList.update (path job) task (tasks r)\<rparr>) w1 = (res, r', w')"
      by simp
    from Cons.IH [OF this] show ?thesis by simp
  qed
qed

lemma start_loop_valid:
  "list_all (\<lambda>j. cron_validate P (schedule j)) jobs \<Longrightarrow>
   start_loop P jobs r w = (res, r', w') \<Longrightarrow>
     res = Inr () \<and> fst ` set (tasks r') = fst ` set (tasks r) \<union> path ` set jobs"
proof (induction jobs arbitrary: r w)
  case Nil
  then show ?case by simp
next
  case (Cons job jobs)
  obtain task w1 where s: "cron_schedule P (schedule job) job w = (task, w1)"
    by (cases "cron_schedule P (schedule job) job w")
  from Cons.prems s
  have "start_loop P jobs (r\<lparr>tasks := AList.update (path job) task (tasks r)\<rparr>) w1 = (res, r', w')"
    by simp
  moreover from Cons.prems have "list_all (\<lambda>j. cron_validate P (schedule j)) jobs" by simp
  ultimately have "res = Inr () \<and> fst ` set (tasks r') =
      fst ` set (tasks (r\<lparr>tasks := AList.update (path job) task (tasks r)\<rparr>)) \<union> path ` set jobs"
    by (rule Cons.IH [rotated])
  then show ?case by (auto simp: dom_update)
qed

lemma start_loop_first_invalid:
  "list_all (\<lambda>j. cron_validate P (schedule j)) xs \<Longrightarrow>
   \<not> cron_validate P (schedule bad) \<Longrightarrow>
   start_loop P xs r w = (res, r', w') \<Longrightarrow>
     start_loop P (xs @ bad # ys) r w = (Inl (InvalidSchedule (path bad) (schedule bad)), r', w')"
proof (induction xs arbitrary: r w)
  case Nil
  then show ?case by simp
next
  case (Cons job jobs)
  obtain task w1 where s: "cron_schedule P (schedule job) job w = (task, w1)"
    by (cases "cron_schedule P (schedule job) job w")
  from Cons.prems s
  have "start_loop P jobs (r\<lparr>tasks := AList.update (path job) task (tasks r)\<rparr>) w1 = (res, r', w')"
    by simp
  moreover from Cons.prems have "list_all (\<lambda>j. cron_validate P (schedule j)) jobs" by simp
  ultimately have "start_loop P (jobs @ bad # ys) (r\<lparr>tasks := AList.update (path job) task (tasks r)\<rparr>) w1
      = (Inl (InvalidSchedule (path bad) (schedule bad)), r', w')"
    using Cons.prems(2) by (intro Cons.IH)
  with Cons.prems s show ?case by simp
qed

lemma start_unfold:
  assumes "loadConfig P (options r) w = Inr cfg"
      and "filterJobs P (options r) (crons cfg) = Inr jobs"
      and "jobs \<noteq> []"
  shows "start P r w =
           start_loop P jobs (r\<lparr>config := Some cfg, stats := (stats r)\<lparr>totalJobs := length jobs\<rparr>\<rparr>) w"
  using assms by (simp add: start_def Let_def)

lemma scenario_bad_load:
  "loadConfig test_platform (options runner0) (test_world0 badSchedule_text []) = Inr \<lparr>crons = badSchedule\<rparr>"
  by code_simp

lemma scenario_bad_filter:
  "filterJobs test_platform (options runner0) (crons \<lparr>crons = badSchedule\<rparr>) = Inr badSchedule"
  by code_simp

section \<open>Claims about start and stop\<close>

text \<open>
  C1, as the code has it. When the configuration loads, the filtered set is given and one
  of its schedules fails validation, \<open>start\<close> raises \<open>InvalidSchedule\<close> with the path and
  schedule of the first such job. The timers registered before that job was reached stay
  registered: the paths in the timer set after the failed start are those it held before
  and those of the jobs in front of the offending one. The set is empty afterwards only if
  it was empty before and the first job of the filtered set is the offending one.
\<close>

theorem start_invalid_schedule:
  assumes "loadConfig P (options r) w = Inr cfg"
      and "filterJobs P (options r) (crons cfg) = Inr jobs"
      and "\<not> list_all (\<lambda>j. cron_validate P (schedule j)) jobs"
  shows "(let good = takeWhile (\<lambda>j. cron_validate P (schedule j)) jobs;
              bad = hd (dropWhile (\<lambda>j. cron_validate P (schedule j)) jobs);
              r' = fst (snd (start P r w))
          in fst (start P r w) = Inl (InvalidSchedule (path bad) (schedule bad))
           \<and> fst ` set (tasks r') = fst ` set (tasks r) \<union> path ` set good
           \<and> (tasks r' = [] \<longleftrightarrow> tasks r = [] \<and> good = []))"
proof -
  let ?v = "\<lambda>j. cron_validate P (schedule j)"
  let ?good = "takeWhile ?v jobs"
  let ?rest = "dropWhile ?v jobs"
  let ?r0 = "r\<lparr>config := Some cfg, stats := (stats r)\<lparr>totalJobs := length jobs\<rparr>\<rparr>"
  from assms(3) have ne: "?rest \<noteq> []" by (simp add: list_all_iff)
  then obtain bad ys where rest: "?rest = bad # ys" by (cases ?rest) auto
  have bad: "\<not> ?v bad" using hd_dropWhile [OF ne] rest by simp
  have good: "list_all ?v ?good" by (simp add: list_all_iff) (meson set_takeWhileD)
  have split: "jobs = ?good @ bad # ys" using rest takeWhile_dropWhile_id [of ?v jobs] by simp
  from split have jne: "jobs \<noteq> []" by auto
  obtain res r1 w1 where g: "start_loop P ?good ?r0 w = (res, r1, w1)" by (metis prod_cases3)
  from start_loop_first_invalid [OF good bad g, of ys] split
  have loop: "start_loop P jobs ?r0 w = (Inl (InvalidSchedule (path bad) (schedule bad)), r1, w1)"
    by simp
  from start_loop_valid [OF good g]
  have keys: "fst ` set (tasks r1) = fst ` set (tasks r) \<union> path ` set ?good" by simp
  have st: "start P r w = (Inl (InvalidSchedule (path bad) (schedule bad)), r1, w1)"
    using loop by (simp add: start_unfold [OF assms(1,2) jne])
  have empty: "tasks r1 = [] \<longleftrightarrow> tasks r = [] \<and> ?good = []"
    using keys by (metis Un_empty image_is_empty set_empty)
  show ?thesis using st keys empty rest by (simp add: Let_def)
qed

text \<open>
  The theorem at the configuration whose second job has the schedule \<^verbatim>\<open>invalid\<close>: the error
  names that job, and the timer of the first job is in the set.
\<close>

theorem start_invalid_schedule_witness:
  "fst started_bad = Inl (InvalidSchedule ''/api/crons/test2'' ''invalid'')
   \<and> fst ` set (tasks (fst (snd started_bad))) = {''/api/crons/test1''}
   \<and> tasks (fst (snd started_bad)) \<noteq> []"
proof -
  have h3: "\<not> list_all (\<lambda>j. cron_validate test_platform (schedule j)) badSchedule"
    by code_simp
  have good: "takeWhile (\<lambda>j. cron_validate test_platform (schedule j)) badSchedule
                = [\<lparr>path = ''/api/crons/test1'', schedule = ''* * * * *''\<rparr>]"
    by code_simp
  have bad: "hd (dropWhile (\<lambda>j. cron_validate test_platform (schedule j)) badSchedule)
               = \<lparr>path = ''/api/crons/test2'', schedule = ''invalid''\<rparr>"
    by code_simp
  have t0: "tasks runner0 = []" by code_simp
  from start_invalid_schedule [OF scenario_bad_load scenario_bad_filter h3]
  show ?thesis by (simp add: Let_def good bad t0 started_bad_def)
qed

text \<open>
  C1 as stated fails on that configuration: \<open>start\<close> raises \<open>InvalidSchedule\<close>, yet the
  timer registered for the first job is still in the set, and the \<open>stop\<close> that follows
  stops one handle.
\<close>

theorem start_invalid_schedule_counterexample:
  "fst started_bad = Inl (InvalidSchedule ''/api/crons/test2'' ''invalid'')
   \<and> tasks (fst (snd started_bad)) = [(''/api/crons/test1'', 0)]
   \<and> running (snd (snd started_bad)) = [0]
   \<and> stop_calls (snd (stop test_platform (fst (snd started_bad)) (snd (snd started_bad)))) = [0]"
  by code_simp

text \<open>
  C10. When the configuration loads and the filtered set \<open>jobs\<close> is not empty, the
  statistics after \<open>start\<close> are those before it with \<open>totalJobs\<close> set to the size of
  the filtered set, whatever \<open>start\<close> returns: a start that raises \<open>InvalidSchedule\<close>
  leaves \<open>totalJobs\<close> at that count.
\<close>

theorem start_sets_totalJobs:
  assumes "loadConfig P (options r) w = Inr cfg"
      and "filterJobs P (options r) (crons cfg) = Inr jobs"
      and "jobs \<noteq> []"
  shows "stats (fst (snd (start P r w))) = (stats r)\<lparr>totalJobs := length jobs\<rparr>"
proof -
  obtain res r' w' where s: "start_loop P jobs
      (r\<lparr>config := Some cfg, stats := (stats r)\<lparr>totalJobs := length jobs\<rparr>\<rparr>) w = (res, r', w')"
    by (metis prod_cases3)
  from start_loop_keeps [OF s] have "stats r' = (stats r)\<lparr>totalJobs := length jobs\<rparr>" by simp
  with s show ?thesis by (simp add: start_unfold [OF assms])
qed

theorem start_sets_totalJobs_witness:
  "fst started_bad = Inl (InvalidSchedule ''/api/crons/test2'' ''invalid'')
   \<and> totalJobs (stats runner0) = 0
   \<and> stats (fst (snd started_bad)) =
       \<lparr>totalJobs = 2, successfulExecutions = 0, failedExecutions = 0, lastExecution = None\<rparr>"
proof -
  have h3: "badSchedule \<noteq> []" by code_simp
  have e: "(stats runner0)\<lparr>totalJobs := length badSchedule\<rparr> =
      \<lparr>totalJobs = 2, successfulExecutions = 0, failedExecutions = 0, lastExecution = None\<rparr>"
    by code_simp
  have f: "fst started_bad = Inl (InvalidSchedule ''/api/crons/test2'' ''invalid'')"
    by code_simp
  have z: "totalJobs (stats runner0) = 0" by code_simp
  from start_sets_totalJobs [OF scenario_bad_load scenario_bad_filter h3] e f z
  show ?thesis by (simp add: started_bad_def)
qed

text \<open>
  C8. From any state, \<open>stop\<close> leaves the timer set empty and the statistics as they
  were, and the world it returns is the one in which every handle of the set has been
  stopped, in the set's order. It raises nothing (its result has no error case). A second
  \<open>stop\<close>, and a \<open>stop\<close> on a runner with no timers, change neither runner nor world.
\<close>

theorem stop_clears_timers:
  "tasks (fst (stop P r w)) = []
   \<and> stats (fst (stop P r w)) = stats r
   \<and> snd (stop P r w) = foldl (\<lambda>w' h. task_stop P h w') w (map snd (tasks r))
   \<and> stop P (fst (stop P r w)) w' = (fst (stop P r w), w')
   \<and> stop P (r\<lparr>tasks := []\<rparr>) w = (r\<lparr>tasks := []\<rparr>, w)"
proof -
  have "foldl (\<lambda>w' (p, task). task_stop P task w') w ts
      = foldl (\<lambda>w' h. task_stop P h w') w (map snd ts)" for ts :: "(string \<times> nat) list"
    by (induction ts arbitrary: w) (auto split: prod.splits)
  then show ?thesis by (simp add: stop_def)
qed

text \<open>
  After a start with the three jobs of the test configuration, \<open>stop\<close> stops the three
  handles and a second \<open>stop\<close> stops none.
\<close>

theorem stop_clears_timers_witness:
  "map snd (tasks (fst (snd started_ok))) = [0, 1, 2]
   \<and> tasks (fst (stop test_platform (fst (snd started_ok)) (snd (snd started_ok)))) = []
   \<and> stats (fst (stop test_platform (fst (snd started_ok)) (snd (snd started_ok))))
       = stats (fst (snd started_ok))
   \<and> stop_calls (snd (stop test_platform (fst (snd started_ok)) (snd (snd started_ok)))) = [0, 1, 2]
   \<and> running (snd (stop test_platform (fst (snd started_ok)) (snd (snd started_ok)))) = []
   \<and> stop_calls (snd (stop test_platform
         (fst (stop test_platform (fst (snd started_ok)) (snd (snd started_ok))))
         (snd (stop test_platform (fst (snd started_ok)) (snd (snd started_ok)))))) = [0, 1, 2]"
proof -
  let ?r = "fst (snd started_ok)" and ?w = "snd (snd started_ok)"
  let ?s = "stop test_platform ?r ?w"
  note t = stop_clears_timers [of test_platform ?r ?w "snd ?s"]
  have a: "map snd (tasks ?r) = [0, 1, 2]" by code_simp
  have b: "stop_calls (foldl (\<lambda>w' h. task_stop test_platform h w') ?w [0, 1, 2]) = [0, 1, 2]"
    by code_simp
  have c: "running (foldl (\<lambda>w' h. task_stop test_platform h w') ?w [0, 1, 2]) = []"
    by code_simp
  from t have w1: "snd ?s = foldl (\<lambda>w' h. task_stop test_platform h w') ?w (map snd (tasks ?r))"
    by blast
  from t have "stop test_platform (fst ?s) (snd ?s) = (fst ?s, snd ?s)" by blast
  then have again: "snd (stop test_platform (fst ?s) (snd ?s)) = snd ?s" by (simp only: snd_conv)
  from t have e: "tasks (fst ?s) = []" and f: "stats (fst ?s) = stats ?r" by blast+
  have g: "stop_calls (snd ?s) = [0, 1, 2]" and h: "running (snd ?s) = []"
    by (simp_all only: w1 a b c)
  show ?thesis by (simp only: again a e f g h simp_thms)
qed

section \<open>Dispatch\<close>

lemma executeCron_keeps:
  "options (fst (snd (executeCron P r job w))) = options r
   \<and> config (fst (snd (executeCron P r job w))) = config r
   \<and> tasks (fst (snd (executeCron P r job w))) = tasks r"
  by (simp add: executeCron_def Let_def split: prod.splits fetch_outcome.splits)

lemma executeCron_shape:
  "(let res = fst (executeCron P r job w) in
      path res = path job \<and> schedule res = schedule job \<and>
      (case dispatch_outcome P r job w of
         Resolved response \<Rightarrow>
           success res = ok response \<and> statusCode res = Some (status response) \<and> error res = None
       | Rejected e \<Rightarrow>
           success res = False \<and> statusCode res = None \<and>
           error res = Some (case e of Exn c m \<Rightarrow> m | NonError s \<Rightarrow> ''Unknown error'')))"
  by (simp add: executeCron_def dispatch_outcome_def Let_def
           split: prod.splits fetch_outcome.splits thrown.splits)

text \<open>
  What a dispatch does to the statistics, by the outcome of its call: an answered call
  counts once, as a success or as a failure, and sets \<open>lastExecution\<close> to the timestamp of
  the dispatch; a call that throws counts as a failure and leaves \<open>lastExecution\<close> as it
  was.
\<close>

lemma executeCron_stats:
  "stats (fst (snd (executeCron P r job w))) =
     (case dispatch_outcome P r job w of
        Resolved response \<Rightarrow>
          (if ok response
           then (stats r)\<lparr>successfulExecutions := successfulExecutions (stats r) + 1\<rparr>
           else (stats r)\<lparr>failedExecutions := failedExecutions (stats r) + 1\<rparr>)
            \<lparr>lastExecution := Some (timestamp (fst (executeCron P r job w)))\<rparr>
      | Rejected e \<Rightarrow> (stats r)\<lparr>failedExecutions := failedExecutions (stats r) + 1\<rparr>)"
  by (simp add: executeCron_def dispatch_outcome_def Let_def
           split: prod.splits fetch_outcome.splits)

lemma executeCron_fst_cong:
  "baseUrl (options r) = baseUrl (options r') \<Longrightarrow> cronSecret (options r) = cronSecret (options r') \<Longrightarrow>
   fetch (options r) = fetch (options r') \<Longrightarrow>
     fst (executeCron P r job w) = fst (executeCron P r' job w)"
  by (simp add: executeCron_def fetch_call_def requestInit_def Let_def
           split: prod.splits fetch_outcome.splits)

lemma executeCron_config:
  "fst (executeCron P (r\<lparr>config := c\<rparr>) job w) = fst (executeCron P r job w)"
  by (rule executeCron_fst_cong) simp_all

lemma executeAll_loop_results:
  "executeAll_loop P jobs acc r w = (results, r', w') \<Longrightarrow>
     \<exists>new. results = acc @ new \<and> options r' = options r \<and> config r' = config r \<and>
       list_all2 (\<lambda>job res. \<exists>r1 w1. options r1 = options r \<and> res = fst (executeCron P r1 job w1))
         jobs new"
proof (induction jobs arbitrary: acc r w)
  case Nil
  then show ?case by simp
next
  case (Cons job jobs)
  obtain res r1 w1 where e: "executeCron P r job w = (res, r1, w1)" by (metis prod_cases3)
  with Cons.prems have "executeAll_loop P jobs (acc @ [res]) r1 w1 = (results, r', w')" by simp
  from Cons.IH [OF this] obtain new where
    n: "results = (acc @ [res]) @ new" "options r' = options r1" "config r' = config r1"
       "list_all2 (\<lambda>job res. \<exists>r2 w2. options r2 = options r1 \<and> res = fst (executeCron P r2 job w2))
          jobs new"
    by blast
  from executeCron_keeps [of P r job w] e
  have o: "options r1 = options r" "config r1 = config r" by simp_all
  have "res = fst (executeCron P r job w)" using e by simp
  then have "\<exists>r2 w2. options r2 = options r \<and> res = fst (executeCron P r2 job w2)" by blast
  with n o have "results = acc @ (res # new) \<and> options r' = options r \<and> config r' = config r \<and>
      list_all2 (\<lambda>job res. \<exists>r1 w1. options r1 = options r \<and> res = fst (executeCron P r1 job w1))
        (job # jobs) (res # new)"
    by simp
  then show ?case by blast
qed

lemma scenario_ok_load:
  "loadConfig test_platform (options runner0) (test_world0 mockConfig_text script3)
     = Inr \<lparr>crons = mockConfig\<rparr>"
  by code_simp

lemma scenario_ok_filter:
  "filterJobs test_platform (options runner0) (crons \<lparr>crons = mockConfig\<rparr>) = Inr mockConfig"
  by code_simp

text \<open>
  C2 fails on the code where the call throws. The dispatch of one job against a
  transport that fails with \<^verbatim>\<open>Network error\<close> counts one failure and has the timestamp
  1001, but \<open>lastExecution\<close> is still unset afterwards; the same dispatch answered with
  status 500 sets it to 1001.
\<close>

theorem executeCron_thrown_lastExecution:
  "success (fst dispatched_rejected) = False
   \<and> error (fst dispatched_rejected) = Some ''Network error''
   \<and> timestamp (fst dispatched_rejected) = 1001
   \<and> successfulExecutions (stats (fst (snd dispatched_rejected))) = 0
   \<and> failedExecutions (stats (fst (snd dispatched_rejected))) = 1
   \<and> lastExecution (stats (fst (snd dispatched_rejected))) = None
   \<and> timestamp (fst dispatched_failed) = 1001
   \<and> failedExecutions (stats (fst (snd dispatched_failed))) = 1
   \<and> lastExecution (stats (fst (snd dispatched_failed))) = Some 1001"
  by code_simp

text \<open>
  C3. The result of a dispatch carries the job's path and schedule. When the call is
  answered, \<open>success\<close> is the response's \<open>ok\<close>, \<open>statusCode\<close> is its status and there is no
  \<open>error\<close>, also when \<open>ok\<close> is false. When the call throws, \<open>success\<close> is false, there is no
  \<open>statusCode\<close>, and \<open>error\<close> is the message of the thrown \<^verbatim>\<open>Error\<close>, or \<^verbatim>\<open>Unknown error\<close> for
  a thrown value that is not an \<^verbatim>\<open>Error\<close>. When the configuration loads and the filtered set
  is not empty, \<open>executeAll\<close> returns a list with one result per filtered job, in the
  order of the jobs, each the result of a dispatch of its job.
\<close>

theorem executeCron_result:
  "(let res = fst (executeCron P r job w) in
      path res = path job \<and> schedule res = schedule job \<and>
      (case dispatch_outcome P r job w of
         Resolved response \<Rightarrow>
           success res = ok response \<and> statusCode res = Some (status response) \<and> error res = None
       | Rejected e \<Rightarrow>
           success res = False \<and> statusCode res = None \<and>
           error res = Some (case e of Exn c m \<Rightarrow> m | NonError s \<Rightarrow> ''Unknown error'')))
   \<and> (loadConfig P (options r) w = Inr cfg \<and> filterJobs P (options r) (crons cfg) = Inr jobs
        \<and> jobs \<noteq> [] \<longrightarrow>
       (\<exists>results. fst (executeAll P r w) = Inr results
          \<and> length results = length jobs
          \<and> map path results = map path jobs
          \<and> list_all2 (\<lambda>job res. \<exists>r1 w1. options r1 = options r
                                   \<and> res = fst (executeCron P r1 job w1)) jobs results))"
proof (intro conjI impI)
  show "(let res = fst (executeCron P r job w) in
      path res = path job \<and> schedule res = schedule job \<and>
      (case dispatch_outcome P r job w of
         Resolved response \<Rightarrow>
           success res = ok response \<and> statusCode res = Some (status response) \<and> error res = None
       | Rejected e \<Rightarrow>
           success res = False \<and> statusCode res = None \<and>
           error res = Some (case e of Exn c m \<Rightarrow> m | NonError s \<Rightarrow> ''Unknown error'')))"
    by (rule executeCron_shape)
next
  assume a: "loadConfig P (options r) w = Inr cfg \<and> filterJobs P (options r) (crons cfg) = Inr jobs
        \<and> jobs \<noteq> []"
  obtain results r' w' where l: "executeAll_loop P jobs [] (r\<lparr>config := Some cfg\<rparr>) w = (results, r', w')"
    by (metis prod_cases3)
  from executeAll_loop_results [OF l]
  have la: "list_all2 (\<lambda>job res. \<exists>r1 w1. options r1 = options r
                                   \<and> res = fst (executeCron P r1 job w1)) jobs results"
    by simp
  have paths: "map path results = map path jobs"
    using la
  proof (induction jobs results rule: list_all2_induct)
    case Nil
    then show ?case by simp
  next
    case (Cons job jobs res results)
    then obtain r1 w1 where "res = fst (executeCron P r1 job w1)" by blast
    with executeCron_shape [of P r1 job w1] have "path res = path job" by (simp add: Let_def)
    with Cons show ?case by simp
  qed
  have "fst (executeAll P r w) = Inr results" using a l by (simp add: executeAll_def Let_def)
  with la paths list_all2_lengthD [OF la]
  show "\<exists>results. fst (executeAll P r w) = Inr results
          \<and> length results = length jobs
          \<and> map path results = map path jobs
          \<and> list_all2 (\<lambda>job res. \<exists>r1 w1. options r1 = options r
                                   \<and> res = fst (executeCron P r1 job w1)) jobs results"
    by auto
qed

text \<open>
  The three jobs against the transport that answers 200, then 500, then fails with
  \<^verbatim>\<open>Network error\<close>: three results in the order of the jobs, and one success and two
  failures counted.
\<close>

theorem executeCron_result_witness:
  "map path (projr (fst executed_all)) =
     [''/api/crons/test1'', ''/api/crons/test2'', ''/api/crons/notifications/test3'']
   \<and> map success (projr (fst executed_all)) = [True, False, False]
   \<and> map statusCode (projr (fst executed_all)) = [Some 200, Some 500, None]
   \<and> map error (projr (fst executed_all)) = [None, None, Some ''Network error'']
   \<and> successfulExecutions (stats (fst (snd executed_all))) = 1
   \<and> failedExecutions (stats (fst (snd executed_all))) = 2"
proof -
  have ne: "mockConfig \<noteq> []" by code_simp
  from executeCron_result [of test_platform runner0 job1 "test_world0 mockConfig_text script3"
      "\<lparr>crons = mockConfig\<rparr>" mockConfig] scenario_ok_load scenario_ok_filter ne
  obtain results where
    r: "fst (executeAll test_platform runner0 (test_world0 mockConfig_text script3)) = Inr results"
    and p: "map path results = map path mockConfig"
    by blast
  have mp: "map path mockConfig =
      [''/api/crons/test1'', ''/api/crons/test2'', ''/api/crons/notifications/test3'']"
    by code_simp
  from r p mp have a: "map path (projr (fst executed_all)) =
      [''/api/crons/test1'', ''/api/crons/test2'', ''/api/crons/notifications/test3'']"
    by (simp add: executed_all_def)
  have b: "map success (projr (fst executed_all)) = [True, False, False]" by code_simp
  have c: "map statusCode (projr (fst executed_all)) = [Some 200, Some 500, None]" by code_simp
  have d: "map error (projr (fst executed_all)) = [None, None, Some ''Network error'']"
    by code_simp
  have e: "successfulExecutions (stats (fst (snd executed_all))) = 1" by code_simp
  have f: "failedExecutions (stats (fst (snd executed_all))) = 2" by code_simp
  from a b c d e f show ?thesis by (simp only: simp_thms)
qed

text \<open>
  C9. The request of a dispatch is a GET. Its headers carry
  \<^verbatim>\<open>Content-Type: application/json\<close>, carry \<^verbatim>\<open>Authorization: Bearer\<close> with the secret exactly
  when the runner's secret is not empty, and carry nothing else. The secret of a
  constructed runner is the \<^verbatim>\<open>cronSecret\<close> option when that is given and not empty,
  otherwise the environment's \<^verbatim>\<open>CRON_SECRET\<close>, otherwise empty.
\<close>

theorem dispatch_request_headers:
  "http_method (requestInit (options r)) = ''GET''
   \<and> headers (requestInit (options r)) ''Content-Type'' = Some ''application/json''
   \<and> headers (requestInit (options r)) ''Authorization'' =
       (if cronSecret (options r) = [] then None else Some (''Bearer '' @ cronSecret (options r)))
   \<and> dom (headers (requestInit (options r))) \<subseteq> {''Content-Type'', ''Authorization''}
   \<and> fetch_call P (options r) job w =
       (case fetch (options r) of Some f \<Rightarrow> f | None \<Rightarrow> global_fetch P)
         (baseUrl (options r) @ path job) (requestInit (options r)) w
   \<and> (CronRunner_new P o_arg = Inr r \<longrightarrow>
        cronSecret (options r) =
          (case opt_cronSecret o_arg of
             Some s \<Rightarrow> if s \<noteq> [] then s
                       else (case env_CRON_SECRET P of Some e \<Rightarrow> e | None \<Rightarrow> [])
           | None \<Rightarrow> (case env_CRON_SECRET P of Some e \<Rightarrow> e | None \<Rightarrow> [])))"
proof -
  have env: "or_else v [] = (case v of Some e \<Rightarrow> e | None \<Rightarrow> [])" for v
    by (cases v) simp_all
  have secret: "CronRunner_new P o_arg = Inr r \<Longrightarrow>
      cronSecret (options r) = or_else (opt_cronSecret o_arg) (or_else (env_CRON_SECRET P) [])"
    by (auto simp: CronRunner_new_def Let_def split: option.splits)
  have res: "or_else a d = (case a of Some s \<Rightarrow> if s \<noteq> [] then s else d | None \<Rightarrow> d)" for a d
    by (cases a) simp_all
  show ?thesis
    using secret by (auto simp: requestInit_def fetch_call_def Let_def env res split: option.splits)
qed

text \<open>
  With the secret \<^verbatim>\<open>abc\<close> every request the transport received carries
  \<^verbatim>\<open>Authorization: Bearer abc\<close>; with no secret and no \<^verbatim>\<open>CRON_SECRET\<close> none carries the header.
\<close>

theorem dispatch_request_headers_witness:
  "cronSecret (options runner_secret) = ''abc''
   \<and> headers (requestInit (options runner_secret)) ''Authorization'' = Some ''Bearer abc''
   \<and> headers (requestInit (options runner_secret)) ''Content-Type'' = Some ''application/json''
   \<and> map (\<lambda>(url, init). (http_method init, headers init ''Authorization''))
         (requests (snd (snd executed_secret)))
       = [(''GET'', Some ''Bearer abc''), (''GET'', Some ''Bearer abc''), (''GET'', Some ''Bearer abc'')]
   \<and> cronSecret (options runner0) = []
   \<and> headers (requestInit (options runner0)) ''Authorization'' = None
   \<and> map (\<lambda>(url, init). (http_method init, headers init ''Authorization''))
         (requests (snd (snd executed_all)))
       = [(''GET'', None), (''GET'', None), (''GET'', None)]"
proof -
  have s: "cronSecret (options runner_secret) = ''abc''" by code_simp
  have n: "cronSecret (options runner0) = []" by code_simp
  note t1 = dispatch_request_headers [of runner_secret test_platform job1
      "test_world0 mockConfig_text script3" test_options]
  note t0 = dispatch_request_headers [of runner0 test_platform job1
      "test_world0 mockConfig_text script3" test_options]
  from t1 s have a: "headers (requestInit (options runner_secret)) ''Authorization'' = Some ''Bearer abc''"
    by simp
  from t1 have b: "headers (requestInit (options runner_secret)) ''Content-Type'' = Some ''application/json''"
    by blast
  from t0 n have c: "headers (requestInit (options runner0)) ''Authorization'' = None"
    by simp
  have d: "map (\<lambda>(url, init). (http_method init, headers init ''Authorization''))
         (requests (snd (snd executed_secret)))
       = [(''GET'', Some ''Bearer abc''), (''GET'', Some ''Bearer abc''), (''GET'', Some ''Bearer abc'')]"
    by code_simp
  have e: "map (\<lambda>(url, init). (http_method init, headers init ''Authorization''))
         (requests (snd (snd executed_all)))
       = [(''GET'', None), (''GET'', None), (''GET'', None)]"
    by code_simp
  from s n a b c d e show ?thesis by (simp only: simp_thms)
qed

section \<open>Loading and filtering\<close>

text \<open>
  The outcomes of \<open>loadConfig\<close>, by what the platform answers for the resolved path: a
  missing file, a text the parser rejects, a parsed value other than \<^verbatim>\<open>null\<close> without an
  array under \<^verbatim>\<open>crons\<close>, an object with such an array, and the parsed value \<^verbatim>\<open>null\<close>, on
  which the property access throws before the shape is checked.
\<close>

lemma loadConfig_outcomes:
  fixes P :: "'w platform"
  defines "file opts \<equiv> path_resolve P (configPath opts)"
  shows "\<not> existsSync P w (file opts) \<Longrightarrow> loadConfig P opts w = Inl (ConfigNotFound (file opts))"
    and "existsSync P w (file opts) \<Longrightarrow> readFileSync P w (file opts) = Inr text \<Longrightarrow>
         JSON_parse P text = Inl (Exn SyntaxError m) \<Longrightarrow>
           loadConfig P opts w = Inl (ConfigParseError (file opts) m)"
    and "existsSync P w (file opts) \<Longrightarrow> readFileSync P w (file opts) = Inr text \<Longrightarrow>
         JSON_parse P text = Inr v \<Longrightarrow> v \<noteq> JNull \<Longrightarrow>
         \<not> isArray (projr (get_crons v)) \<Longrightarrow>
           loadConfig P opts w = Inl ConfigShapeError"
    and "existsSync P w (file opts) \<Longrightarrow> readFileSync P w (file opts) = Inr text \<Longrightarrow>
         JSON_parse P text = Inr (JObject kvs) \<Longrightarrow> map_of kvs ''crons'' = Some (JArray js) \<Longrightarrow>
           loadConfig P opts w = Inr \<lparr>crons = js\<rparr>"
    and "existsSync P w (file opts) \<Longrightarrow> readFileSync P w (file opts) = Inr text \<Longrightarrow>
         JSON_parse P text = Inr JNull \<Longrightarrow>
           loadConfig P opts w =
             Inl (Uncaught (Exn TypeError ''Cannot read properties of null (reading 'crons')''))"
proof -
  show "\<not> existsSync P w (file opts) \<Longrightarrow> loadConfig P opts w = Inl (ConfigNotFound (file opts))"
    by (simp add: loadConfig_def file_def)
  show "existsSync P w (file opts) \<Longrightarrow> readFileSync P w (file opts) = Inr text \<Longrightarrow>
         JSON_parse P text = Inl (Exn SyntaxError m) \<Longrightarrow>
           loadConfig P opts w = Inl (ConfigParseError (file opts) m)"
    by (simp add: loadConfig_def loadConfig_try_def file_def)
  show "existsSync P w (file opts) \<Longrightarrow> readFileSync P w (file opts) = Inr text \<Longrightarrow>
         JSON_parse P text = Inr v \<Longrightarrow> v \<noteq> JNull \<Longrightarrow>
         \<not> isArray (projr (get_crons v)) \<Longrightarrow>
           loadConfig P opts w = Inl ConfigShapeError"
    by (cases v) (simp_all add: loadConfig_def loadConfig_try_def file_def)
  show "existsSync P w (file opts) \<Longrightarrow> readFileSync P w (file opts) = Inr text \<Longrightarrow>
         JSON_parse P text = Inr (JObject kvs) \<Longrightarrow> map_of kvs ''crons'' = Some (JArray js) \<Longrightarrow>
           loadConfig P opts w = Inr \<lparr>crons = js\<rparr>"
    by (simp add: loadConfig_def loadConfig_try_def file_def)
  show "existsSync P w (file opts) \<Longrightarrow> readFileSync P w (file opts) = Inr text \<Longrightarrow>
         JSON_parse P text = Inr JNull \<Longrightarrow>
           loadConfig P opts w =
             Inl (Uncaught (Exn TypeError ''Cannot read properties of null (reading 'crons')''))"
    by (simp add: loadConfig_def loadConfig_try_def file_def)
qed

lemma loadConfig_filter_opt:
  "loadConfig P (opts\<lparr>filter_opt := f\<rparr>) w = loadConfig P opts w"
  by (simp add: loadConfig_def)

text \<open>
  C5 fails on the code for a file whose text is \<^verbatim>\<open>null\<close>: the text parses, the parsed value
  has no \<^verbatim>\<open>crons\<close> array, and \<open>loadConfig\<close> raises the TypeError of the property access, not
  the error about the missing array. The other three texts give the three errors of the
  claim and the parsed configuration.
\<close>

theorem loadConfig_null:
  "loadConfig test_platform (options runner0) (test_world0 ''null'' []) =
     Inl (Uncaught (Exn TypeError ''Cannot read properties of null (reading 'crons')''))
   \<and> loadConfig test_platform (options runner0) (test_world0 ''null'' []) \<noteq> Inl ConfigShapeError
   \<and> loadConfig test_platform (options runner0)
        ((test_world0 ''null'' [])\<lparr>files := []\<rparr>) = Inl (ConfigNotFound ''/cwd/vercel.json'')
   \<and> loadConfig test_platform (options runner0) (test_world0 ''invalid json'' []) =
        Inl (ConfigParseError ''/cwd/vercel.json'' ''Unexpected token'')
   \<and> loadConfig test_platform (options runner0) (test_world0 otherData_text []) =
        Inl ConfigShapeError
   \<and> loadConfig test_platform (options runner0) (test_world0 mockConfig_text []) =
        Inr \<lparr>crons = mockConfig\<rparr>"
  by code_simp

lemma replace_star_concat:
  "replace_star f = concat (map (\<lambda>c. if c = CHR ''*'' then ''.*'' else [c]) f)"
  by (induction f) simp_all

text \<open>
  C4, as the code has it. With no pattern, or with the empty pattern, the filter returns
  the list unchanged. With a pattern that is not empty, every \<^verbatim>\<open>*\<close> in it is replaced by
  \<^verbatim>\<open>.*\<close>, all other characters stay as they are, and the result between \<^verbatim>\<open>^\<close> and \<^verbatim>\<open>$\<close> is
  given to the platform's matcher: when the matcher accepts it, the filter keeps exactly
  the jobs whose path it matches; when the matcher rejects it, the filter raises the
  matcher's error. A list that the filter returns is a subsequence of the list it was
  given, so the order is kept.
\<close>

theorem filterJobs_pattern:
  "filterJobs P opts jobs =
     (case filter_opt opts of
        None \<Rightarrow> Inr jobs
      | Some f \<Rightarrow>
          if f = [] then Inr jobs
          else (case RegExp_new P (''^'' @ concat (map (\<lambda>c. if c = CHR ''*'' then ''.*'' else [c]) f) @ ''$'') of
                  Inl e \<Rightarrow> Inl (Uncaught e)
                | Inr regex \<Rightarrow> Inr (filter (\<lambda>job. regex (path job)) jobs)))
   \<and> (\<forall>js. filterJobs P opts jobs = Inr js \<longrightarrow> subseq js jobs)"
proof
  show "filterJobs P opts jobs =
     (case filter_opt opts of
        None \<Rightarrow> Inr jobs
      | Some f \<Rightarrow>
          if f = [] then Inr jobs
          else (case RegExp_new P (''^'' @ concat (map (\<lambda>c. if c = CHR ''*'' then ''.*'' else [c]) f) @ ''$'') of
                  Inl e \<Rightarrow> Inl (Uncaught e)
                | Inr regex \<Rightarrow> Inr (filter (\<lambda>job. regex (path job)) jobs)))"
    by (simp add: filterJobs_def Let_def replace_star_concat split: option.splits)
  show "\<forall>js. filterJobs P opts jobs = Inr js \<longrightarrow> subseq js jobs"
    by (auto simp: filterJobs_def Let_def split: option.splits if_splits sum.splits)
qed

text \<open>
  The filter of the tests keeps the one job under \<^verbatim>\<open>notifications\<close>; without a filter all
  three jobs are kept.
\<close>

theorem filterJobs_pattern_witness:
  "filterJobs test_platform (options runner_filtered) mockConfig =
     Inr [\<lparr>path = ''/api/crons/notifications/test3'', schedule = ''*/5 * * * *''\<rparr>]
   \<and> subseq [\<lparr>path = ''/api/crons/notifications/test3'', schedule = ''*/5 * * * *''\<rparr>] mockConfig
   \<and> filterJobs test_platform (options runner0) mockConfig = Inr mockConfig"
proof -
  have a: "filterJobs test_platform (options runner_filtered) mockConfig =
     Inr [\<lparr>path = ''/api/crons/notifications/test3'', schedule = ''*/5 * * * *''\<rparr>]"
    by code_simp
  have b: "filterJobs test_platform (options runner0) mockConfig = Inr mockConfig"
    by code_simp
  from filterJobs_pattern [of test_platform "options runner_filtered" mockConfig] a
  have "subseq [\<lparr>path = ''/api/crons/notifications/test3'', schedule = ''*/5 * * * *''\<rparr>] mockConfig"
    by blast
  with a b show ?thesis by (simp only: simp_thms)
qed

text \<open>
  C4 as stated fails on two patterns. The pattern \<^verbatim>\<open>/api/c++/*\<close> becomes
  \<^verbatim>\<open>^/api/c++/.*$\<close>, which the matcher rejects (nothing to repeat): the filter returns no
  list but raises. The empty pattern is treated as no pattern: all three jobs are kept,
  though none of their paths matches \<^verbatim>\<open>^$\<close>.
\<close>

theorem filterJobs_pattern_counterexample:
  "filterJobs test_platform
      (options (test_runner (test_options\<lparr>opt_filter := Some ''/api/c++/*''\<rparr>))) mockConfig
     = Inl (Uncaught (Exn SyntaxError ''Invalid regular expression: Nothing to repeat''))
   \<and> filterJobs test_platform
      (options (test_runner (test_options\<lparr>opt_filter := Some []\<rparr>))) mockConfig
     = Inr mockConfig
   \<and> map (\<lambda>job. projr (RegExp_new test_platform ''^$'') (path job)) mockConfig
     = [False, False, False]"
  by code_simp

text \<open>
  On the scripted matcher the translated pattern agrees with the wildcard reading, for a
  pattern without matcher characters and a path without a line break. A line break in the
  path is where the two part: \<^verbatim>\<open>.\<close> does not match it.
\<close>

lemma parse_body_plain:
  "plain_pattern f \<Longrightarrow> parse_body (replace_star f) acc = Parsed (rev acc @ items_of f)"
proof (induction f arbitrary: acc)
  case Nil
  then show ?case by (simp add: items_of_def)
next
  case (Cons c f)
  from Cons.prems have p: "plain_pattern f" by (simp add: plain_pattern_def)
  show ?case
  proof (cases "c = CHR ''*''")
    case True
    have "parse_body (replace_star (c # f)) acc = parse_body (replace_star f) ((AnyChar, Star) # acc)"
      using True by (simp add: parse_char_def)
    also have "\<dots> = Parsed (rev ((AnyChar, Star) # acc) @ items_of f)" by (rule Cons.IH [OF p])
    finally show ?thesis using True by (simp add: items_of_def)
  next
    case False
    with Cons.prems have "parse_char c acc = Parsed ((Lit c, Once) # acc)"
      by (simp add: parse_char_def plain_pattern_def)
    then have "parse_body (replace_star (c # f)) acc = parse_body (replace_star f) ((Lit c, Once) # acc)"
      using False by simp
    also have "\<dots> = Parsed (rev ((Lit c, Once) # acc) @ items_of f)" by (rule Cons.IH [OF p])
    finally show ?thesis using False by (simp add: items_of_def)
  qed
qed

lemma match_items_wildcard:
  "list_all (\<lambda>d. d \<noteq> CHR 0x0A \<and> d \<noteq> CHR 0x0D) s \<Longrightarrow>
     match_items (items_of f) s = wildcard_match f s"
proof (induction f s rule: wildcard_match.induct)
  case (1 s)
  then show ?case by (simp add: items_of_def)
next
  case (2 c cs)
  then show ?case by (simp add: items_of_def)
next
  case (3 c cs d ds)
  then show ?case by (auto simp: items_of_def)
qed

lemma test_RegExp_wildcard:
  assumes "plain_pattern f" and "list_all (\<lambda>d. d \<noteq> CHR 0x0A \<and> d \<noteq> CHR 0x0D) s"
  shows "\<exists>regex. test_RegExp (''^'' @ replace_star f @ ''$'') = Inr regex
           \<and> regex s = wildcard_match f s"
proof -
  have "parse_body (replace_star f) [] = Parsed (items_of f)"
    using parse_body_plain [OF assms(1), of "[]"] by simp
  then have "test_RegExp (''^'' @ replace_star f @ ''$'') = Inr (match_items (items_of f))"
    by (simp add: test_RegExp_def butlast_append)
  with match_items_wildcard [OF assms(2)] show ?thesis by simp
qed

lemma wildcard_line_break:
  "wildcard_match ''/a*'' [CHR ''/'', CHR ''a'', CHR 0x0A, CHR ''b'']
   \<and> \<not> projr (test_RegExp (''^'' @ replace_star ''/a*'' @ ''$''))
          [CHR ''/'', CHR ''a'', CHR 0x0A, CHR ''b'']"
  by code_simp

section \<open>One job by its path, and reloading\<close>

lemma executeOne_fst:
  assumes "loadConfig P (options r) w = Inr cfg"
  shows "fst (executeOne P r p w) =
           (case find (\<lambda>j. path j = p) (crons cfg) of
              None \<Rightarrow> Inl (JobNotFound p)
            | Some job \<Rightarrow> Inr (fst (executeCron P r job w)))"
  using assms
  by (simp add: executeOne_def Let_def split_beta executeCron_config split: option.splits)

lemma executeCron_world:
  "snd (snd (executeCron P r job w)) =
     snd (Date_now P (snd (fetch_call P (options r) job (snd (Date_now P (snd (Date_now P w)))))))"
  by (simp add: executeCron_def Let_def split: prod.splits fetch_outcome.splits)

lemma executeCron_filter_opt:
  "executeCron P (r\<lparr>options := (options r)\<lparr>filter_opt := f\<rparr>\<rparr>) job w =
     (case executeCron P r job w of
        (res, r2, w') \<Rightarrow> (res, r2\<lparr>options := (options r2)\<lparr>filter_opt := f\<rparr>\<rparr>, w'))"
  by (simp add: executeCron_def fetch_call_def requestInit_def Let_def
           split: prod.splits fetch_outcome.splits)

lemma executeOne_triple:
  assumes "loadConfig P (options r) w = Inr cfg"
  shows "executeOne P r p w =
           (case find (\<lambda>j. path j = p) (crons cfg) of
              None \<Rightarrow> (Inl (JobNotFound p), r\<lparr>config := Some cfg\<rparr>, w)
            | Some job \<Rightarrow>
                (Inr (fst (executeCron P (r\<lparr>config := Some cfg\<rparr>) job w)),
                 fst (snd (executeCron P (r\<lparr>config := Some cfg\<rparr>) job w)),
                 snd (snd (executeCron P (r\<lparr>config := Some cfg\<rparr>) job w))))"
  using assms by (simp add: executeOne_def Let_def split_beta split: option.splits)

text \<open>
  C6. When the configuration loads: if no job of the loaded list has the path \<open>p\<close>,
  \<open>executeOne\<close> raises \<open>JobNotFound\<close> for \<open>p\<close>; otherwise it returns the result of
  dispatching the first job whose path equals \<open>p\<close>, and the path of that result is
  \<open>p\<close>. The filter pattern plays no part: the outcome is the same for every value of the
  filter option. The call is a dispatch in full: when no job has the path, the runner
  holds the loaded configuration and the world is untouched; when a job has it, result,
  runner and world are those of \<open>executeCron\<close> on that job from the runner holding the
  loaded configuration, so the statistics count the dispatch by the outcome of its call,
  and the world is the one left by the two readings of the clock, the call to the job's
  address and the last reading of the clock.
\<close>

theorem executeOne_exact_path:
  assumes "loadConfig P (options r) w = Inr cfg"
  shows "(p \<notin> path ` set (crons cfg) \<longrightarrow> fst (executeOne P r p w) = Inl (JobNotFound p))
       \<and> (p \<in> path ` set (crons cfg) \<longrightarrow>
            (\<exists>job res. find (\<lambda>j. path j = p) (crons cfg) = Some job
               \<and> fst (executeOne P r p w) = Inr res
               \<and> res = fst (executeCron P r job w)
               \<and> path res = p))
       \<and> fst (executeOne P (r\<lparr>options := (options r)\<lparr>filter_opt := f\<rparr>\<rparr>) p w)
           = fst (executeOne P r p w)
       \<and> (p \<notin> path ` set (crons cfg) \<longrightarrow>
            executeOne P r p w = (Inl (JobNotFound p), r\<lparr>config := Some cfg\<rparr>, w))
       \<and> (\<forall>job. find (\<lambda>j. path j = p) (crons cfg) = Some job \<longrightarrow>
            executeOne P r p w =
              (Inr (fst (executeCron P (r\<lparr>config := Some cfg\<rparr>) job w)),
               fst (snd (executeCron P (r\<lparr>config := Some cfg\<rparr>) job w)),
               snd (snd (executeCron P (r\<lparr>config := Some cfg\<rparr>) job w)))
            \<and> stats (fst (snd (executeOne P r p w))) =
                (case dispatch_outcome P r job w of
                   Resolved response \<Rightarrow>
                     (if ok response
                      then (stats r)\<lparr>successfulExecutions := successfulExecutions (stats r) + 1\<rparr>
                      else (stats r)\<lparr>failedExecutions := failedExecutions (stats r) + 1\<rparr>)
                       \<lparr>lastExecution := Some (timestamp (fst (executeCron P r job w)))\<rparr>
                 | Rejected e \<Rightarrow> (stats r)\<lparr>failedExecutions := failedExecutions (stats r) + 1\<rparr>)
            \<and> options (fst (snd (executeOne P r p w))) = options r
            \<and> tasks (fst (snd (executeOne P r p w))) = tasks r
            \<and> config (fst (snd (executeOne P r p w))) = Some cfg
            \<and> snd (snd (executeOne P r p w)) =
                snd (Date_now P (snd (fetch_call P (options r) job
                                        (snd (Date_now P (snd (Date_now P w))))))))
       \<and> executeOne P (r\<lparr>options := (options r)\<lparr>filter_opt := f\<rparr>\<rparr>) p w =
           (case executeOne P r p w of
              (res, r2, w') \<Rightarrow> (res, r2\<lparr>options := (options r2)\<lparr>filter_opt := f\<rparr>\<rparr>, w'))"
proof (intro conjI impI allI)
  assume "p \<notin> path ` set (crons cfg)"
  then have "find (\<lambda>j. path j = p) (crons cfg) = None" by (auto simp: find_None_iff)
  then show "fst (executeOne P r p w) = Inl (JobNotFound p)"
    by (simp add: executeOne_fst [OF assms])
next
  assume "p \<in> path ` set (crons cfg)"
  then have "find (\<lambda>j. path j = p) (crons cfg) \<noteq> None" by (auto simp: find_None_iff)
  then obtain job where j: "find (\<lambda>j. path j = p) (crons cfg) = Some job" by blast
  then have pj: "path job = p" by (auto simp: find_Some_iff)
  have e: "fst (executeOne P r p w) = Inr (fst (executeCron P r job w))"
    using j by (simp add: executeOne_fst [OF assms])
  have "path (fst (executeCron P r job w)) = p"
    using executeCron_shape [of P r job w] pj by (simp add: Let_def)
  with j e show "\<exists>job res. find (\<lambda>j. path j = p) (crons cfg) = Some job
               \<and> fst (executeOne P r p w) = Inr res
               \<and> res = fst (executeCron P r job w)
               \<and> path res = p"
    by blast
next
  let ?r = "r\<lparr>options := (options r)\<lparr>filter_opt := f\<rparr>\<rparr>"
  have l: "loadConfig P (options ?r) w = Inr cfg"
    using assms by (simp add: loadConfig_filter_opt)
  have c: "fst (executeCron P ?r job w) = fst (executeCron P r job w)" for job
    by (rule executeCron_fst_cong) simp_all
  show "fst (executeOne P ?r p w) = fst (executeOne P r p w)"
    by (simp add: executeOne_fst [OF l] executeOne_fst [OF assms] c cong: option.case_cong)
next
  assume "p \<notin> path ` set (crons cfg)"
  then have "find (\<lambda>j. path j = p) (crons cfg) = None" by (auto simp: find_None_iff)
  then show "executeOne P r p w = (Inl (JobNotFound p), r\<lparr>config := Some cfg\<rparr>, w)"
    by (simp add: executeOne_triple [OF assms])
next
  fix job
  assume j: "find (\<lambda>j. path j = p) (crons cfg) = Some job"
  let ?r1 = "r\<lparr>config := Some cfg\<rparr>"
  let ?x = "executeCron P ?r1 job w"
  show t: "executeOne P r p w = (Inr (fst ?x), fst (snd ?x), snd (snd ?x))"
    using j by (simp add: executeOne_triple [OF assms])
  have d: "dispatch_outcome P ?r1 job w = dispatch_outcome P r job w"
    by (simp add: dispatch_outcome_def)
  show "stats (fst (snd (executeOne P r p w))) =
                (case dispatch_outcome P r job w of
                   Resolved response \<Rightarrow>
                     (if ok response
                      then (stats r)\<lparr>successfulExecutions := successfulExecutions (stats r) + 1\<rparr>
                      else (stats r)\<lparr>failedExecutions := failedExecutions (stats r) + 1\<rparr>)
                       \<lparr>lastExecution := Some (timestamp (fst (executeCron P r job w)))\<rparr>
                 | Rejected e \<Rightarrow> (stats r)\<lparr>failedExecutions := failedExecutions (stats r) + 1\<rparr>)"
    using executeCron_stats [of P ?r1 job w]
    by (simp add: t d executeCron_config split: fetch_outcome.splits)
  show "options (fst (snd (executeOne P r p w))) = options r"
    using executeCron_keeps [of P ?r1 job w] by (simp add: t)
  show "tasks (fst (snd (executeOne P r p w))) = tasks r"
    using executeCron_keeps [of P ?r1 job w] by (simp add: t)
  show "config (fst (snd (executeOne P r p w))) = Some cfg"
    using executeCron_keeps [of P ?r1 job w] by (simp add: t)
  show "snd (snd (executeOne P r p w)) =
                snd (Date_now P (snd (fetch_call P (options r) job
                                        (snd (Date_now P (snd (Date_now P w)))))))"
    using executeCron_world [of P ?r1 job w] by (simp add: t)
next
  show "executeOne P (r\<lparr>options := (options r)\<lparr>filter_opt := f\<rparr>\<rparr>) p w =
           (case executeOne P r p w of
              (res, r2, w') \<Rightarrow> (res, r2\<lparr>options := (options r2)\<lparr>filter_opt := f\<rparr>\<rparr>, w'))"
  proof -
    have x: "executeCron P (r\<lparr>options := (options r)\<lparr>filter_opt := f\<rparr>, config := Some cfg\<rparr>) job w =
        (case executeCron P (r\<lparr>config := Some cfg\<rparr>) job w of
           (res, r2, w') \<Rightarrow> (res, r2\<lparr>options := (options r2)\<lparr>filter_opt := f\<rparr>\<rparr>, w'))" for job
      by (simp add: executeCron_def fetch_call_def requestInit_def Let_def
               split: prod.splits fetch_outcome.splits)
    show ?thesis
      using assms
      by (simp add: executeOne_def loadConfig_filter_opt Let_def x split_beta
               split: option.splits)
  qed
qed

text \<open>
  A runner whose filter keeps only the job under \<^verbatim>\<open>notifications\<close> still runs
  \<^verbatim>\<open>/api/crons/test1\<close> by its path: the transport receives one request, for that
  address, and the success is counted. A path that no job has raises \<open>JobNotFound\<close>;
  the transport receives nothing and nothing is counted.
\<close>

theorem executeOne_exact_path_witness:
  "filterJobs test_platform (options runner_filtered) mockConfig =
     Inr [\<lparr>path = ''/api/crons/notifications/test3'', schedule = ''*/5 * * * *''\<rparr>]
   \<and> path (projr (fst executed_one)) = ''/api/crons/test1''
   \<and> success (projr (fst executed_one)) = True
   \<and> fst executed_missing = Inl (JobNotFound ''/does/not/exist'')
   \<and> map fst (requests (snd (snd executed_one))) = [''http://localhost:3000/api/crons/test1'']
   \<and> stats (fst (snd executed_one)) =
       \<lparr>totalJobs = 0, successfulExecutions = 1, failedExecutions = 0, lastExecution = Some 1001\<rparr>
   \<and> config (fst (snd executed_one)) = Some \<lparr>crons = mockConfig\<rparr>
   \<and> map fst (requests (snd (snd executed_missing))) = []
   \<and> stats (fst (snd executed_missing)) =
       \<lparr>totalJobs = 0, successfulExecutions = 0, failedExecutions = 0, lastExecution = None\<rparr>
   \<and> config (fst (snd executed_missing)) = Some \<lparr>crons = mockConfig\<rparr>"
proof -
  let ?w = "test_world0 mockConfig_text [Resolved \<lparr>ok = True, status = 200\<rparr>]"
  let ?cfg = "\<lparr>crons = mockConfig\<rparr>"
  have l: "loadConfig test_platform (options runner_filtered) ?w = Inr ?cfg"
    by code_simp
  have i: "''/api/crons/test1'' \<in> path ` set (crons ?cfg)"
    by code_simp
  have n: "''/does/not/exist'' \<notin> path ` set (crons ?cfg)"
    by code_simp
  have fj: "find (\<lambda>j. path j = ''/api/crons/test1'') (crons ?cfg) = Some job1"
    by code_simp
  note one = executeOne_exact_path [OF l, of "''/api/crons/test1''"]
  note missing = executeOne_exact_path [OF l, of "''/does/not/exist''"]
  from one i
  obtain res where "fst (executeOne test_platform runner_filtered ''/api/crons/test1'' ?w) = Inr res"
    and "path res = ''/api/crons/test1''"
    by blast
  then have a: "path (projr (fst executed_one)) = ''/api/crons/test1''"
    by (simp add: executed_one_def)
  from missing n
  have b: "fst executed_missing = Inl (JobNotFound ''/does/not/exist'')"
    by (simp add: executed_missing_def)
  have c: "filterJobs test_platform (options runner_filtered) mockConfig =
     Inr [\<lparr>path = ''/api/crons/notifications/test3'', schedule = ''*/5 * * * *''\<rparr>]"
    by code_simp
  have d: "success (projr (fst executed_one)) = True" by code_simp
  from one fj have w1: "snd (snd executed_one) =
      snd (Date_now test_platform (snd (fetch_call test_platform (options runner_filtered) job1
             (snd (Date_now test_platform (snd (Date_now test_platform ?w)))))))"
    unfolding executed_one_def by blast
  have "map fst (requests
      (snd (Date_now test_platform (snd (fetch_call test_platform (options runner_filtered) job1
             (snd (Date_now test_platform (snd (Date_now test_platform ?w))))))))) =
      [''http://localhost:3000/api/crons/test1'']"
    by code_simp
  with w1 have e: "map fst (requests (snd (snd executed_one))) =
      [''http://localhost:3000/api/crons/test1'']"
    by (simp only:)
  from one fj have g: "config (fst (snd executed_one)) = Some ?cfg"
    unfolding executed_one_def by blast
  from missing n have m: "executed_missing =
      (Inl (JobNotFound ''/does/not/exist''), runner_filtered\<lparr>config := Some ?cfg\<rparr>, ?w)"
    unfolding executed_missing_def by blast
  have h: "map fst (requests (snd (snd executed_missing))) = []"
    unfolding m by code_simp
  have k: "config (fst (snd executed_missing)) = Some ?cfg"
    unfolding m by simp
  have s1: "stats (fst (snd executed_one)) =
       \<lparr>totalJobs = 0, successfulExecutions = 1, failedExecutions = 0, lastExecution = Some 1001\<rparr>"
    by code_simp
  have s2: "stats (fst (snd executed_missing)) =
       \<lparr>totalJobs = 0, successfulExecutions = 0, failedExecutions = 0, lastExecution = None\<rparr>"
    by code_simp
  from a b c d e g h k s1 s2 show ?thesis by (simp only: simp_thms)
qed

lemma start_loop_config:
  "config (fst (snd (start_loop P jobs r w))) = config r"
  using start_loop_keeps [of P jobs r w "fst (start_loop P jobs r w)"
      "fst (snd (start_loop P jobs r w))" "snd (snd (start_loop P jobs r w))"]
  by simp

lemma executeAll_loop_config:
  "config (fst (snd (executeAll_loop P jobs acc r w))) = config r"
  using executeAll_loop_results [of P jobs acc r w "fst (executeAll_loop P jobs acc r w)"
      "fst (snd (executeAll_loop P jobs acc r w))" "snd (snd (executeAll_loop P jobs acc r w))"]
  by auto

text \<open>
  C7. \<open>start\<close>, \<open>executeAll\<close> and \<open>executeOne\<close> begin by loading the configuration: called
  on a runner that holds any configuration \<open>c\<close> in memory, each fails with the loader's
  error and an untouched runner when the load fails, and otherwise does what it does on
  the runner holding any other configuration; after a load that succeeds the runner holds
  the configuration just loaded. \<open>listJobs\<close> on a runner that holds a configuration
  filters that configuration and reads no file; on a runner that holds none it loads.
\<close>

theorem operations_reload_config:
  "start P (r\<lparr>config := c\<rparr>) w =
     (case loadConfig P (options r) w of
        Inl e \<Rightarrow> (Inl e, r\<lparr>config := c\<rparr>, w)
      | Inr cfg \<Rightarrow> start P r w)
   \<and> executeAll P (r\<lparr>config := c\<rparr>) w =
     (case loadConfig P (options r) w of
        Inl e \<Rightarrow> (Inl e, r\<lparr>config := c\<rparr>, w)
      | Inr cfg \<Rightarrow> executeAll P r w)
   \<and> executeOne P (r\<lparr>config := c\<rparr>) p w =
     (case loadConfig P (options r) w of
        Inl e \<Rightarrow> (Inl e, r\<lparr>config := c\<rparr>, w)
      | Inr cfg \<Rightarrow> executeOne P r p w)
   \<and> (loadConfig P (options r) w = Inr cfg \<longrightarrow>
        config (fst (snd (start P r w))) = Some cfg
        \<and> config (fst (snd (executeAll P r w))) = Some cfg
        \<and> config (fst (snd (executeOne P r p w))) = Some cfg)
   \<and> listJobs P (r\<lparr>config := Some cfg'\<rparr>) w
       = (filterJobs P (options r) (crons cfg'), r\<lparr>config := Some cfg'\<rparr>)
   \<and> listJobs P (r\<lparr>config := None\<rparr>) w =
     (case loadConfig P (options r) w of
        Inl e \<Rightarrow> (Inl e, r\<lparr>config := None\<rparr>)
      | Inr cfg \<Rightarrow> (filterJobs P (options r) (crons cfg), r\<lparr>config := Some cfg\<rparr>))"
proof -
  have ops: "start P (r\<lparr>config := c\<rparr>) w =
     (case loadConfig P (options r) w of
        Inl e \<Rightarrow> (Inl e, r\<lparr>config := c\<rparr>, w)
      | Inr cfg \<Rightarrow> start P r w)
   \<and> executeAll P (r\<lparr>config := c\<rparr>) w =
     (case loadConfig P (options r) w of
        Inl e \<Rightarrow> (Inl e, r\<lparr>config := c\<rparr>, w)
      | Inr cfg \<Rightarrow> executeAll P r w)
   \<and> executeOne P (r\<lparr>config := c\<rparr>) p w =
     (case loadConfig P (options r) w of
        Inl e \<Rightarrow> (Inl e, r\<lparr>config := c\<rparr>, w)
      | Inr cfg \<Rightarrow> executeOne P r p w)
   \<and> listJobs P (r\<lparr>config := Some cfg'\<rparr>) w
       = (filterJobs P (options r) (crons cfg'), r\<lparr>config := Some cfg'\<rparr>)
   \<and> listJobs P (r\<lparr>config := None\<rparr>) w =
     (case loadConfig P (options r) w of
        Inl e \<Rightarrow> (Inl e, r\<lparr>config := None\<rparr>)
      | Inr cfg \<Rightarrow> (filterJobs P (options r) (crons cfg), r\<lparr>config := Some cfg\<rparr>))"
    by (simp add: start_def executeAll_def executeOne_def listJobs_def Let_def split: sum.splits)
  have held: "config (fst (snd (start P r w))) = Some cfg
        \<and> config (fst (snd (executeAll P r w))) = Some cfg
        \<and> config (fst (snd (executeOne P r p w))) = Some cfg"
    if l: "loadConfig P (options r) w = Inr cfg"
  proof (intro conjI)
    show "config (fst (snd (start P r w))) = Some cfg"
      using l by (simp add: start_def Let_def start_loop_config split: sum.splits)
    show "config (fst (snd (executeAll P r w))) = Some cfg"
      using l by (simp add: executeAll_def Let_def split_beta executeAll_loop_config split: sum.splits)
    show "config (fst (snd (executeOne P r p w))) = Some cfg"
      using l executeCron_keeps [of P "r\<lparr>config := Some cfg\<rparr>" _ w]
      by (simp add: executeOne_def Let_def split_beta split: option.splits)
  qed
  from ops held show ?thesis by blast
qed

text \<open>
  After a one-shot run on the configuration with three jobs the file changes to the one
  with two jobs. The next \<open>executeAll\<close> dispatches the two jobs of the new file, as it
  would on a runner with no configuration in memory, and holds the new configuration
  afterwards; \<open>listJobs\<close> on the runner of the first run still lists the three jobs it has
  in memory.
\<close>

theorem operations_reload_config_witness:
  "config (fst (snd executed_all)) = Some \<lparr>crons = mockConfig\<rparr>
   \<and> map path (projr (fst executed_again)) = [''/api/crons/test1'', ''/api/crons/test2'']
   \<and> executeAll test_platform ((fst (snd executed_all))\<lparr>config := None\<rparr>)
         (test_world0 badSchedule_text []) = executed_again
   \<and> config (fst (snd executed_again)) = Some \<lparr>crons = badSchedule\<rparr>
   \<and> fst listed_again = Inr mockConfig"
proof -
  let ?r = "fst (snd executed_all)"
  let ?w = "test_world0 badSchedule_text []"
  note t = operations_reload_config [where P = test_platform and r = ?r and c = None and w = ?w
      and cfg = "\<lparr>crons = badSchedule\<rparr>" and p = "''/api/crons/test1''"
      and cfg' = "\<lparr>crons = mockConfig\<rparr>"]
  have l: "loadConfig test_platform (options ?r) ?w = Inr \<lparr>crons = badSchedule\<rparr>" by code_simp
  have a: "config ?r = Some \<lparr>crons = mockConfig\<rparr>" by code_simp
  have b: "map path (projr (fst executed_again)) = [''/api/crons/test1'', ''/api/crons/test2'']"
    by code_simp
  from t l have c: "executeAll test_platform (?r\<lparr>config := None\<rparr>) ?w = executed_again"
    by (simp add: executed_again_def)
  from t l have d: "config (fst (snd executed_again)) = Some \<lparr>crons = badSchedule\<rparr>"
    by (simp add: executed_again_def)
  have same: "?r\<lparr>config := Some \<lparr>crons = mockConfig\<rparr>\<rparr> = ?r"
    using a by (metis CronRunner.surjective CronRunner.update_convs(4))
  from t have "listJobs test_platform (?r\<lparr>config := Some \<lparr>crons = mockConfig\<rparr>\<rparr>) ?w
      = (filterJobs test_platform (options ?r) (crons \<lparr>crons = mockConfig\<rparr>),
         ?r\<lparr>config := Some \<lparr>crons = mockConfig\<rparr>\<rparr>)"
    by blast
  then have "fst listed_again = filterJobs test_platform (options ?r) (crons \<lparr>crons = mockConfig\<rparr>)"
    by (simp add: same listed_again_def)
  moreover have "filterJobs test_platform (options ?r) (crons \<lparr>crons = mockConfig\<rparr>) = Inr mockConfig"
    by code_simp
  ultimately have e: "fst listed_again = Inr mockConfig" by simp
  from a b c d e show ?thesis by (simp only: simp_thms)
qed

end